theory Spec2Isabelle
  imports Main
begin

section \<open>JavaScript values\<close>

text \<open>
  Every payload of the migrator is untyped JSON: the bodies of intercepted responses, the
  contents of the export files, the replies of the destination GraphQL service. A value is
  what \<^verbatim>\<open>JSON.parse\<close> or \<^verbatim>\<open>response.json()\<close> returns, plus \<^verbatim>\<open>undefined\<close>
  for a property that is not there. Numbers are integers here (JSON numbers with a fraction
  or an exponent are not represented). \<open>JObj kvs\<close> lists the own properties of an object in
  enumeration order; a property is read from its first binding.
\<close>

datatype jsval =
    JUndefined
  | JNull
  | JBool bool
  | JNum int
  | JStr string
  | JArr "jsval list"
  | JObj "(string \<times> jsval) list"

text \<open>
  What the program can throw. \<open>Error msg\<close> is \<^verbatim>\<open>new Error(msg)\<close>; \<open>Rejected v\<close> is a promise
  rejected with the plain value \<open>v\<close> (\<^verbatim>\<open>reject(false)\<close> in \<^verbatim>\<open>MSLogin.authenticate\<close>).
\<close>

datatype error =
    TypeError
  | SyntaxError
  | TimeoutError
  | RequestError
  | FsError
  | Error string
  | Rejected jsval

text \<open>Sequencing of pure steps that may throw.\<close>

definition ebind :: "error + 'a \<Rightarrow> ('a \<Rightarrow> error + 'b) \<Rightarrow> error + 'b" where
  "ebind m f = (case m of Inl e \<Rightarrow> Inl e | Inr x \<Rightarrow> f x)"

text \<open>
  \<^verbatim>\<open>v.k\<close> for the property names this program reads (\<^verbatim>\<open>data\<close>, \<^verbatim>\<open>errors\<close>, \<^verbatim>\<open>value\<close>,
  \<^verbatim>\<open>length\<close>, \<^verbatim>\<open>templateName\<close>, ...): reading a property of \<^verbatim>\<open>null\<close> or \<^verbatim>\<open>undefined\<close>
  throws a TypeError, a missing property is \<^verbatim>\<open>undefined\<close>, arrays and strings have a
  \<^verbatim>\<open>length\<close>.
\<close>

fun js_get :: "jsval \<Rightarrow> string \<Rightarrow> error + jsval" where
  "js_get JUndefined k = Inl TypeError"
| "js_get JNull k = Inl TypeError"
| "js_get (JObj kvs) k = Inr (case map_of kvs k of None \<Rightarrow> JUndefined | Some v \<Rightarrow> v)"
| "js_get (JArr xs) k = Inr (if k = ''length'' then JNum (int (length xs)) else JUndefined)"
| "js_get (JStr s) k = Inr (if k = ''length'' then JNum (int (length s)) else JUndefined)"
| "js_get (JBool b) k = Inr JUndefined"
| "js_get (JNum n) k = Inr JUndefined"

text \<open>\<^verbatim>\<open>v[0]\<close>.\<close>

fun at0 :: "jsval \<Rightarrow> error + jsval" where
  "at0 JUndefined = Inl TypeError"
| "at0 JNull = Inl TypeError"
| "at0 (JArr xs) = Inr (case xs of [] \<Rightarrow> JUndefined | x # rest \<Rightarrow> x)"
| "at0 (JStr s) = Inr (case s of [] \<Rightarrow> JUndefined | c # rest \<Rightarrow> JStr [c])"
| "at0 (JObj kvs) = js_get (JObj kvs) ''0''"
| "at0 (JBool b) = Inr JUndefined"
| "at0 (JNum n) = Inr JUndefined"

text \<open>Truthiness, as \<^verbatim>\<open>if (result.errors)\<close> tests it.\<close>

fun truthy :: "jsval \<Rightarrow> bool" where
  "truthy JUndefined = False"
| "truthy JNull = False"
| "truthy (JBool b) = b"
| "truthy (JNum n) = (n \<noteq> 0)"
| "truthy (JStr s) = (s \<noteq> [])"
| "truthy (JArr xs) = True"
| "truthy (JObj kvs) = True"

fun show_nat :: "nat \<Rightarrow> string" where
  "show_nat n =
     (if n < 10 then [char_of (48 + n)]
      else show_nat (n div 10) @ [char_of (48 + n mod 10)])"

declare show_nat.simps [simp del]

text \<open>
  An integer is printed in full, digit by digit. JavaScript does so for magnitudes below
  \<^verbatim>\<open>1e21\<close> and switches to exponent form from there on; \<open>jsval\<close> holds no fractions. The
  numbers printed in a run are lengths and counts.
\<close>

definition show_int :: "int \<Rightarrow> string" where
  "show_int n = (if n < 0 then ''-'' @ show_nat (nat (- n)) else show_nat (nat n))"

fun join_with :: "string \<Rightarrow> string list \<Rightarrow> string" where
  "join_with sep [] = []"
| "join_with sep [s] = s"
| "join_with sep (s # t # r) = s @ sep @ join_with sep (t # r)"

text \<open>
  The string a value becomes inside a template literal or next to \<^verbatim>\<open>+\<close>. An array is its
  elements joined by commas, \<^verbatim>\<open>null\<close> and \<^verbatim>\<open>undefined\<close> elements left empty. A parsed
  object prints as \<^verbatim>\<open>[object Object]\<close>, unless it has an own \<^verbatim>\<open>toString\<close> entry: that
  entry is not callable, and the conversion throws a TypeError.
\<close>

fun js_to_string :: "jsval \<Rightarrow> error + string"
and js_join :: "jsval list \<Rightarrow> error + string list" where
  "js_to_string JUndefined = Inr ''undefined''"
| "js_to_string JNull = Inr ''null''"
| "js_to_string (JBool b) = Inr (if b then ''true'' else ''false'')"
| "js_to_string (JNum n) = Inr (show_int n)"
| "js_to_string (JStr s) = Inr s"
| "js_to_string (JArr xs) =
     (case js_join xs of Inl e \<Rightarrow> Inl e | Inr ss \<Rightarrow> Inr (join_with '','' ss))"
| "js_to_string (JObj kvs) =
     (if ''toString'' \<in> fst ` set kvs then Inl TypeError else Inr ''[object Object]'')"
| "js_join [] = Inr []"
| "js_join (x # xs) =
     (case (if x = JUndefined \<or> x = JNull then Inr [] else js_to_string x) of
        Inl e \<Rightarrow> Inl e
      | Inr s \<Rightarrow> (case js_join xs of Inl e \<Rightarrow> Inl e | Inr ss \<Rightarrow> Inr (s # ss)))"

text \<open>
  \<^verbatim>\<open>JSON.stringify(v)\<close>: \<^verbatim>\<open>undefined\<close> for \<^verbatim>\<open>undefined\<close> (\<open>None\<close>), else the compact JSON
  text. Inside an array \<^verbatim>\<open>undefined\<close> is written \<^verbatim>\<open>null\<close>; inside an object the entry is
  left out. Characters 34 (double quote) and 92 (backslash) and the control characters are
  escaped.
\<close>

definition hex_digit :: "nat \<Rightarrow> char" where
  "hex_digit n = (if n < 10 then char_of (48 + n) else char_of (87 + n))"

definition json_escape :: "char \<Rightarrow> string" where
  "json_escape c =
     (let n = (of_char c :: nat); bs = char_of (92 :: nat) in
      if n = 34 then [bs, c]
      else if n = 92 then [bs, bs]
      else if n = 8 then [bs, CHR ''b'']
      else if n = 9 then [bs, CHR ''t'']
      else if n = 10 then [bs, CHR ''n'']
      else if n = 12 then [bs, CHR ''f'']
      else if n = 13 then [bs, CHR ''r'']
      else if n < 32 then [bs, CHR ''u'', CHR ''0'', CHR ''0'', hex_digit (n div 16), hex_digit (n mod 16)]
      else [c])"

definition json_quote :: "string \<Rightarrow> string" where
  "json_quote s = [char_of (34 :: nat)] @ concat (map json_escape s) @ [char_of (34 :: nat)]"

fun json_text :: "jsval \<Rightarrow> string"
and json_elems :: "jsval list \<Rightarrow> string list"
and json_members :: "(string \<times> jsval) list \<Rightarrow> string list" where
  "json_text JUndefined = ''null''"
| "json_text JNull = ''null''"
| "json_text (JBool b) = (if b then ''true'' else ''false'')"
| "json_text (JNum n) = show_int n"
| "json_text (JStr s) = json_quote s"
| "json_text (JArr xs) = ''['' @ join_with '','' (json_elems xs) @ '']''"
| "json_text (JObj kvs) = ''{'' @ join_with '','' (json_members kvs) @ ''}''"
| "json_elems [] = []"
| "json_elems (x # xs) = json_text x # json_elems xs"
| "json_members [] = []"
| "json_members (kv # kvs) =
     (if snd kv = JUndefined then json_members kvs
      else (json_quote (fst kv) @ '':'' @ json_text (snd kv)) # json_members kvs)"

definition JSON_stringify :: "jsval \<Rightarrow> string option" where
  "JSON_stringify v = (if v = JUndefined then None else Some (json_text v))"

text \<open>\<^verbatim>\<open>process.env.X\<close> inside a template literal: the string, or \<^verbatim>\<open>undefined\<close>.\<close>

definition env_string :: "string option \<Rightarrow> string" where
  "env_string v = (case v of None \<Rightarrow> ''undefined'' | Some s \<Rightarrow> s)"

definition startsWith :: "string \<Rightarrow> string \<Rightarrow> bool" where
  "startsWith s p = (take (length p) s = p)"

section \<open>Programs: state, exceptions, awaits\<close>

text \<open>
  Every entry point is one strictly sequential chain of awaits. A step takes the state of
  the outside world as the run has changed it so far and returns the value or the thrown
  error, with the new state. \<open>pbind\<close> is \<^verbatim>\<open>await\<close> followed by the rest of the block: an
  error skips the rest. \<open>pcatch\<close> is \<^verbatim>\<open>try { ... } catch (error) { ... }\<close>.
\<close>

type_synonym ('s, 'a) prog = "'s \<Rightarrow> (error + 'a) \<times> 's"

definition pret :: "'a \<Rightarrow> ('s, 'a) prog" where
  "pret x = (\<lambda>s. (Inr x, s))"

definition pthrow :: "error \<Rightarrow> ('s, 'a) prog" where
  "pthrow e = (\<lambda>s. (Inl e, s))"

definition plift :: "error + 'a \<Rightarrow> ('s, 'a) prog" where
  "plift r = (\<lambda>s. (r, s))"

definition pbind :: "('s, 'a) prog \<Rightarrow> ('a \<Rightarrow> ('s, 'b) prog) \<Rightarrow> ('s, 'b) prog" where
  "pbind m f = (\<lambda>s. case m s of (Inl e, s') \<Rightarrow> (Inl e, s') | (Inr x, s') \<Rightarrow> f x s')"

definition pcatch :: "('s, 'a) prog \<Rightarrow> (error \<Rightarrow> ('s, 'a) prog) \<Rightarrow> ('s, 'a) prog" where
  "pcatch m h = (\<lambda>s. case m s of (Inl e, s') \<Rightarrow> h e s' | (Inr x, s') \<Rightarrow> (Inr x, s'))"

text \<open>\<^verbatim>\<open>for (const x of xs) { ... }\<close> over a list already in hand.\<close>

fun for_each :: "'a list \<Rightarrow> ('a \<Rightarrow> ('s, unit) prog) \<Rightarrow> ('s, unit) prog" where
  "for_each [] body = pret ()"
| "for_each (x # xs) body = pbind (body x) (\<lambda>u. for_each xs body)"

text \<open>
  \<^verbatim>\<open>console.log(`... ${e} ...`)\<close>: nothing is kept of the output, but the interpolated
  expression is evaluated and may throw.
\<close>

definition console_log :: "error + string \<Rightarrow> ('s, unit) prog" where
  "console_log r = pbind (plift r) (\<lambda>s. pret ())"

section \<open>The Replay Client (\<^verbatim>\<open>src/zubuApi/api.ts\<close>)\<close>

text \<open>
  A request posted to the destination GraphQL endpoint: the authenticate-user operation
  with its email and password (an unset environment variable is \<^verbatim>\<open>undefined\<close>), or the
  create-template mutation with its \<^verbatim>\<open>authorization\<close> header and its variables
  \<^verbatim>\<open>name\<close>, \<^verbatim>\<open>detail\<close> and \<^verbatim>\<open>tenantId\<close>.
\<close>

datatype request =
    AuthenticateUser "string option" "string option"
  | CreateTemplate string string "string option" jsval

text \<open>
  What comes back: \<^verbatim>\<open>request.post\<close> throws, or the body is not JSON
  (\<^verbatim>\<open>response.json()\<close> throws), or the body parses to a value.
\<close>

datatype http_reply = RequestFailed | ReplyNotJson | ReplyJson jsval

text \<open>
  A file under \<^verbatim>\<open>exports/\<close>: \<^verbatim>\<open>readFileSync\<close> throws, or \<^verbatim>\<open>JSON.parse\<close> throws, or the
  text parses to a value.
\<close>

datatype file_content = Unreadable | NotJson | Json jsval

text \<open>
  The outside world of a replay run. The destination service answers a post as it likes,
  knowing the posts made before it. \<open>exports\<close> is the \<^verbatim>\<open>exports\<close> directory as
  \<^verbatim>\<open>readdirSync\<close> lists it, each entry with its content, or \<open>None\<close> when there is no such
  directory. \<open>launch\<close> and \<open>closing\<close> are the browser's launch and close: the error
  they throw, if any.
\<close>

record replay_env =
  api :: "request list \<Rightarrow> request \<Rightarrow> http_reply"
  ZUBU_USERNAME :: "string option"
  ZUBU_PASSWORD :: "string option"
  exports :: "(string \<times> file_content) list option"
  launch :: "error option"
  closing :: "error option"

record auth =
  accessToken :: jsval
  refreshToken :: jsval
  userId :: jsval
  tenant_id :: jsval

record template_input =
  templateName :: string
  templateBody :: "string option"
  tenantId :: jsval

text \<open>The state of a replay run is the list of requests posted so far, oldest first.\<close>

definition post :: "replay_env \<Rightarrow> request \<Rightarrow> (request list, http_reply) prog" where
  "post E req =
     (\<lambda>tr. (case api E tr req of RequestFailed \<Rightarrow> Inl RequestError | r \<Rightarrow> Inr r, tr @ [req]))"

definition response_json :: "http_reply \<Rightarrow> error + jsval" where
  "response_json r = (case r of ReplyJson v \<Rightarrow> Inr v | other \<Rightarrow> Inl SyntaxError)"

text \<open>\<^verbatim>\<open>responseBody.data.authenticateUser.k\<close>.\<close>

definition auth_field :: "jsval \<Rightarrow> string \<Rightarrow> error + jsval" where
  "auth_field responseBody k =
     ebind (js_get responseBody ''data'') (\<lambda>d.
     ebind (js_get d ''authenticateUser'') (\<lambda>a. js_get a k))"

definition authenticateUser ::
  "replay_env \<Rightarrow> string option \<Rightarrow> string option \<Rightarrow> (request list, auth) prog" where
  "authenticateUser E email password =
     pcatch
       (pbind (post E (AuthenticateUser email password)) (\<lambda>response.
        pbind (plift (response_json response)) (\<lambda>responseBody.
        pbind (plift (auth_field responseBody ''accessToken'')) (\<lambda>a.
        pbind (plift (auth_field responseBody ''refreshToken'')) (\<lambda>r.
        pbind (plift (auth_field responseBody ''userId'')) (\<lambda>u.
        pbind (plift (auth_field responseBody ''tenant_id'')) (\<lambda>t.
        pret \<lparr>accessToken = a, refreshToken = r, userId = u, tenant_id = t\<rparr>)))))))
       (\<lambda>error. pthrow (Error ''Authentication failed''))"

definition createTemplate ::
  "replay_env \<Rightarrow> jsval \<Rightarrow> template_input \<Rightarrow> (request list, jsval) prog" where
  "createTemplate E token input =
     pcatch
       (pbind (plift (js_to_string token)) (\<lambda>tok.
        pbind (post E (CreateTemplate (''Bearer '' @ tok) (templateName input)
                         (templateBody input) (tenantId input))) (\<lambda>response.
        pbind (plift (response_json response)) (\<lambda>result.
        pbind (plift (js_get result ''errors'')) (\<lambda>errors.
        if truthy errors then pthrow (Error ''Template creation failed'')
        else plift (ebind (js_get result ''data'') (\<lambda>d. js_get d ''createTemplate'')))))))
       (\<lambda>error. pthrow (Error ''Template creation failed''))"

section \<open>The replay orchestrator (\<^verbatim>\<open>src/migrator.ts\<close>)\<close>

definition readJson :: "replay_env \<Rightarrow> string \<Rightarrow> error + jsval" where
  "readJson E name =
     (case exports E of
        None \<Rightarrow> Inl FsError
      | Some entries \<Rightarrow>
          (case map_of entries name of
             None \<Rightarrow> Inl FsError
           | Some Unreadable \<Rightarrow> Inl FsError
           | Some NotJson \<Rightarrow> Inl SyntaxError
           | Some (Json v) \<Rightarrow> Inr v))"

definition readdirSync :: "replay_env \<Rightarrow> error + string list" where
  "readdirSync E = (case exports E of None \<Rightarrow> Inl FsError | Some entries \<Rightarrow> Inr (map fst entries))"

definition templateTypes :: "string list" where
  "templateTypes = [''issuance'', ''reissuance'', ''release'']"

text \<open>\<^verbatim>\<open>`${v.k}`\<close>: read the property, then convert it to a string.\<close>

definition field_string :: "jsval \<Rightarrow> string \<Rightarrow> error + string" where
  "field_string v k = ebind (js_get v k) js_to_string"

text \<open>The body of the inner loop, lines 43 to 48: one type of one template.\<close>

definition replay_template_type :: "replay_env \<Rightarrow> auth \<Rightarrow> jsval \<Rightarrow> string \<Rightarrow> (request list, unit) prog" where
  "replay_template_type E a template type =
     pbind (console_log (field_string template ''templateName'')) (\<lambda>u.
     pbind (plift (field_string template ''templateName'')) (\<lambda>name.
     pbind (plift (ebind (js_get template type) (\<lambda>t. js_get t ''body''))) (\<lambda>body.
     pbind (createTemplate E (accessToken a)
              \<lparr>templateName = name @ '' - '' @ type,
               templateBody = JSON_stringify body,
               tenantId = tenant_id a\<rparr>) (\<lambda>created.
     pret ()))))"

text \<open>
  The template loop, lines 39 to 50. The outer loop runs over the one-element array
  \<^verbatim>\<open>[templates[0]]\<close>, the inner one over \<^verbatim>\<open>[templateTypes[0]]\<close>.
\<close>

definition replay_template :: "replay_env \<Rightarrow> auth \<Rightarrow> jsval \<Rightarrow> (request list, unit) prog" where
  "replay_template E a template =
     pbind (console_log (field_string template ''templateName'')) (\<lambda>u.
     for_each [templateTypes ! 0] (replay_template_type E a template))"

definition replay_templates :: "replay_env \<Rightarrow> auth \<Rightarrow> jsval \<Rightarrow> (request list, unit) prog" where
  "replay_templates E a templates =
     pbind (plift (at0 templates)) (\<lambda>first.
     for_each [first] (replay_template E a))"

text \<open>One of the three create calls of a communication, lines 64 to 68, 71 to 75, 78 to 82.\<close>

definition create_for :: "replay_env \<Rightarrow> auth \<Rightarrow> jsval \<Rightarrow> string \<Rightarrow> string \<Rightarrow> (request list, jsval) prog" where
  "create_for E a communication subject content =
     pbind (plift (field_string communication ''CaseName'')) (\<lambda>caseName.
     pbind (plift (field_string communication ''Name'')) (\<lambda>name.
     pbind (plift (field_string communication subject)) (\<lambda>subj.
     pbind (plift (js_get communication content)) (\<lambda>body.
     createTemplate E (accessToken a)
       \<lparr>templateName = caseName @ '' - '' @ name @ '' - '' @ subj,
        templateBody = JSON_stringify body,
        tenantId = tenant_id a\<rparr>))))"

text \<open>The body of the communications loop, lines 59 to 83, from the parsed first element on.\<close>

definition replay_communication :: "replay_env \<Rightarrow> auth \<Rightarrow> jsval \<Rightarrow> (request list, unit) prog" where
  "replay_communication E a communication =
     pbind (console_log (field_string communication ''Name'')) (\<lambda>u.
     pbind (console_log (field_string communication ''CaseName'')) (\<lambda>u.
     pbind (console_log (field_string communication ''Name'')) (\<lambda>u.
     pbind (create_for E a communication ''IssuanceSubject'' ''IssuanceContent'') (\<lambda>c1.
     pbind (console_log (field_string communication ''CaseName'')) (\<lambda>u.
     pbind (create_for E a communication ''ReissuanceSubject'' ''ReissuanceContent'') (\<lambda>c2.
     pbind (console_log (field_string communication ''CaseName'')) (\<lambda>u.
     pbind (create_for E a communication ''ReleaseSubject'' ''ReleaseContent'') (\<lambda>c3.
     console_log (field_string communication ''templateName'')))))))))"

definition replay_file :: "replay_env \<Rightarrow> auth \<Rightarrow> string \<Rightarrow> (request list, unit) prog" where
  "replay_file E a file =
     pbind (plift (ebind (readJson E file) at0)) (\<lambda>communication.
     replay_communication E a communication)"

definition matchedFiles :: "string list \<Rightarrow> string list" where
  "matchedFiles files = filter (\<lambda>file. startsWith file ''communication'') files"

definition migrator :: "replay_env \<Rightarrow> (request list, unit) prog" where
  "migrator E =
     pbind (plift (case launch E of Some e \<Rightarrow> Inl e | None \<Rightarrow> Inr ())) (\<lambda>u.
     pbind (authenticateUser E (ZUBU_USERNAME E) (ZUBU_PASSWORD E)) (\<lambda>a.
     pbind (plift (readJson E ''templates.json'')) (\<lambda>templates.
     pbind (console_log (field_string templates ''length'')) (\<lambda>u.
     pbind (replay_templates E a templates) (\<lambda>u.
     pbind (plift (readdirSync E)) (\<lambda>files.
     pbind (for_each (matchedFiles files) (replay_file E a)) (\<lambda>u.
     plift (case closing E of Some e \<Rightarrow> Inl e | None \<Rightarrow> Inr ()))))))))"

section \<open>Vocabulary of the replay claims\<close>

definition is_create :: "request \<Rightarrow> bool" where
  "is_create req = (case req of CreateTemplate h n d t \<Rightarrow> True | other \<Rightarrow> False)"

text \<open>A reply body whose \<^verbatim>\<open>errors\<close> entry is an array.\<close>

definition has_error_array :: "jsval \<Rightarrow> bool" where
  "has_error_array b = (case js_get b ''errors'' of Inr (JArr es) \<Rightarrow> True | other \<Rightarrow> False)"

text \<open>
  The destination answers the create-template request \<open>req\<close>, posted after the requests
  \<open>hist\<close>, with a body that carries an error array.
\<close>

definition error_reply :: "replay_env \<Rightarrow> request list \<Rightarrow> request \<Rightarrow> bool" where
  "error_reply E hist req =
     (is_create req \<and> (case api E hist req of ReplyJson b \<Rightarrow> has_error_array b | other \<Rightarrow> False))"

text \<open>
  A proof device for the replay run: whatever the program \<open>m\<close> posts, a create-template
  request answered with an error array is the last request posted, and \<open>m\<close> has then thrown
  \<^verbatim>\<open>Template creation failed\<close>.
\<close>

definition stops_at_error :: "replay_env \<Rightarrow> (request list, 'a) prog \<Rightarrow> bool" where
  "stops_at_error E m =
     (\<forall>tr. \<exists>new. snd (m tr) = tr @ new \<and>
        (\<forall>i<length new. error_reply E (tr @ take i new) (new ! i) \<longrightarrow>
           Suc i = length new \<and> fst (m tr) = Inl (Error ''Template creation failed'')))"



section \<open>The browser and the filesystem of a scraping run\<close>

text \<open>
  One entry of \<^verbatim>\<open>error_log.txt\<close>: the ISO timestamp, the message and the stack of the error
  (the error itself stands for its stack).
\<close>

record log_entry =
  timestamp :: string
  message :: string
  stack :: error

text \<open>
  The three response URL patterns the scrapers wait for, all under
  \<^verbatim>\<open>https://purview.microsoft.com/apiproxy/aedmcc/ediscovery/v1/\<close>: the cases collection
  (\<^verbatim>\<open>cases\<close>), the communications of one case (\<^verbatim>\<open>cases('id')/communications\<close>), and one
  communication template (\<^verbatim>\<open>communicationtemplates('id')\<close>).
\<close>

datatype pattern = CasesResponse | CommunicationsResponse | TemplateResponse

text \<open>
  Everything a scraping run does to the outside, in the order it does it: the Playwright calls
  on the browser, the context and the page, and the calls of \<^verbatim>\<open>fs\<close>. \<open>WaitForResponse\<close> is
  the registration of a response wait (pattern and timeout), \<open>AwaitResponse\<close> the \<^verbatim>\<open>await\<close> of
  the promise it returned. \<open>RowInnerText i\<close> and \<open>RowClick i\<close> act on the first cell of row
  \<open>i\<close> of the list view.
\<close>

datatype event =
    Launch
  | NewContext string
  | NewPage
  | Goto string
  | Fill string "string option"
  | Click string
  | IsVisible string nat
  | WaitForSelector string nat
  | WaitForURL string nat
  | WaitForLoadState string
  | WaitForTimeout nat
  | WaitForResponse pattern nat
  | AwaitResponse pattern
  | AllRows string
  | RowInnerText nat
  | RowClick nat
  | StorageState string
  | MkdirSync string
  | WriteFileSync string jsval
  | AppendFile string log_entry
  | CloseContext
  | CloseBrowser

text \<open>
  What awaiting a registered response gives: the wait times out (the promise rejects), or it
  resolves. \<open>Response body\<close> is a response whose body \<^verbatim>\<open>response.json()\<close> parses to
  \<open>Some v\<close>, or fails to parse (\<open>None\<close>). \<open>Falsy\<close> is a resolution with a value that fails
  the test \<^verbatim>\<open>if (response)\<close>; Playwright never produces one, the scrapers have a branch for it.
\<close>

datatype awaited = TimedOut | Falsy | Response "jsval option"

text \<open>
  The outside world of a scraping run: the browser, the console it shows, the clock and the
  process environment. Every answer may depend on all that the run has done before (the
  events so far) and on the call itself. \<open>fails\<close> gives the error a call throws, \<open>None\<close> when
  it completes. \<open>positive s\<close> says whether the string \<open>s\<close>, read as a number by JavaScript's
  relational comparison, is greater than zero; that conversion is floating-point arithmetic and
  is left to the environment.
\<close>

record browser =
  fails :: "event list \<Rightarrow> event \<Rightarrow> error option"
  visible :: "event list \<Rightarrow> event \<Rightarrow> bool"
  row_count :: "event list \<Rightarrow> event \<Rightarrow> nat"
  inner_text :: "event list \<Rightarrow> event \<Rightarrow> string"
  awaited_response :: "event list \<Rightarrow> event \<Rightarrow> awaited"
  now :: "event list \<Rightarrow> string"
  positive :: "string \<Rightarrow> bool"
  MS_USERNAME :: "string option"
  MS_PASSWORD :: "string option"
  MS_TENANT_ID :: "string option"
  env_username :: "string option"
  env_password :: "string option"
  env_tenant_id :: "string option"

text \<open>What a file holds: an export (the JSON text of a value) or a saved session.\<close>

datatype stored = Exported jsval | SessionState

text \<open>
  The state of a scraping run: the events so far, the files written under \<^verbatim>\<open>exports/\<close> and
  \<^verbatim>\<open>sessions/\<close> (by path, without a leading \<^verbatim>\<open>./\<close>), and the entries of
  \<^verbatim>\<open>error_log.txt\<close>.
\<close>

record world =
  trace :: "event list"
  files :: "string \<Rightarrow> stored option"
  error_log :: "log_entry list"

text \<open>A call that cannot throw where it stands (registering a wait).\<close>

definition emit :: "event \<Rightarrow> (world, unit) prog" where
  "emit e = (\<lambda>w. (Inr (), w\<lparr>trace := trace w @ [e]\<rparr>))"

text \<open>An awaited call: it is made, and it completes or throws.\<close>

definition perform :: "browser \<Rightarrow> event \<Rightarrow> (world, unit) prog" where
  "perform B e =
     (\<lambda>w. (case fails B (trace w) e of Some err \<Rightarrow> Inl err | None \<Rightarrow> Inr (),
           w\<lparr>trace := trace w @ [e]\<rparr>))"

definition isVisible :: "browser \<Rightarrow> string \<Rightarrow> nat \<Rightarrow> (world, bool) prog" where
  "isVisible B selector timeout =
     (\<lambda>w. (case fails B (trace w) (IsVisible selector timeout) of
              Some err \<Rightarrow> Inl err
            | None \<Rightarrow> Inr (visible B (trace w) (IsVisible selector timeout)),
           w\<lparr>trace := trace w @ [IsVisible selector timeout]\<rparr>))"

definition await_response :: "browser \<Rightarrow> pattern \<Rightarrow> (world, jsval option option) prog" where
  "await_response B pattern =
     (\<lambda>w. (case awaited_response B (trace w) (AwaitResponse pattern) of
              TimedOut \<Rightarrow> Inl TimeoutError
            | Falsy \<Rightarrow> Inr None
            | Response body \<Rightarrow> Inr (Some body),
           w\<lparr>trace := trace w @ [AwaitResponse pattern]\<rparr>))"

text \<open>\<^verbatim>\<open>await response.json()\<close>.\<close>

definition json_of :: "jsval option \<Rightarrow> error + jsval" where
  "json_of body = (case body of None \<Rightarrow> Inl SyntaxError | Some v \<Rightarrow> Inr v)"

text \<open>
  \<^verbatim>\<open>fs.writeFileSync(path, JSON.stringify(v, null, 2))\<close>: \<^verbatim>\<open>JSON.stringify\<close> of
  \<^verbatim>\<open>undefined\<close> is \<^verbatim>\<open>undefined\<close>, which \<^verbatim>\<open>writeFileSync\<close> refuses with a TypeError.
\<close>

definition writeJson :: "browser \<Rightarrow> string \<Rightarrow> jsval \<Rightarrow> (world, unit) prog" where
  "writeJson B path v =
     (if v = JUndefined then pthrow TypeError
      else (\<lambda>w. case fails B (trace w) (WriteFileSync path v) of
                  Some err \<Rightarrow> (Inl err, w\<lparr>trace := trace w @ [WriteFileSync path v]\<rparr>)
                | None \<Rightarrow> (Inr (), w\<lparr>trace := trace w @ [WriteFileSync path v],
                                       files := (files w)(path \<mapsto> Exported v)\<rparr>)))"

text \<open>\<^verbatim>\<open>for (const x of v)\<close>: an array gives its elements, a string its characters, anything
  else is not iterable.\<close>

fun iterate :: "jsval \<Rightarrow> error + jsval list" where
  "iterate (JArr xs) = Inr xs"
| "iterate (JStr s) = Inr (map (\<lambda>c. JStr [c]) s)"
| "iterate other = Inl TypeError"

text \<open>\<^verbatim>\<open>v > 0\<close>.\<close>

fun js_gt0 :: "browser \<Rightarrow> jsval \<Rightarrow> error + bool" where
  "js_gt0 B JUndefined = Inr False"
| "js_gt0 B JNull = Inr False"
| "js_gt0 B (JBool b) = Inr b"
| "js_gt0 B (JNum n) = Inr (0 < n)"
| "js_gt0 B (JStr s) = Inr (positive B s)"
| "js_gt0 B v = (case js_to_string v of Inl e \<Rightarrow> Inl e | Inr s \<Rightarrow> Inr (positive B s))"

text \<open>A loop that builds up a result (\<^verbatim>\<open>templates.push\<close>).\<close>

fun for_each_acc :: "'a list \<Rightarrow> ('a \<Rightarrow> 'b \<Rightarrow> ('s, 'b) prog) \<Rightarrow> 'b \<Rightarrow> ('s, 'b) prog" where
  "for_each_acc [] body acc = pret acc"
| "for_each_acc (x # xs) body acc = pbind (body x acc) (for_each_acc xs body)"

section \<open>Interactive login (\<^verbatim>\<open>src/msAuth/login.ts\<close>, \<^verbatim>\<open>src/auth/login.ts\<close>)\<close>

definition login_url :: string where
  "login_url = ''https://login.microsoftonline.com/''"

definition second_factor_url :: string where
  "second_factor_url = ''https://login.microsoftonline.com/common/SAS/ProcessAuth''"

definition sel_loginfmt :: string where
  \<open>sel_loginfmt = ''input[name="loginfmt"]''\<close>

definition sel_passwd :: string where
  \<open>sel_passwd = ''input[name="passwd"]''\<close>

definition sel_submit :: string where
  \<open>sel_submit = ''input[type="submit"]''\<close>

text \<open>
  Both classes are called \<^verbatim>\<open>MSLogin\<close>. The one of \<^verbatim>\<open>msAuth/login.ts\<close> reads the identity
  from \<^verbatim>\<open>MS_USERNAME\<close> and \<^verbatim>\<open>MS_PASSWORD\<close> and knows the account chooser; its functions
  carry the prefix \<open>msAuth\<close>. The one of \<^verbatim>\<open>auth/login.ts\<close> reads \<^verbatim>\<open>username\<close> and
  \<^verbatim>\<open>password\<close>; its functions carry the prefix \<open>auth\<close>.
\<close>

definition msAuth_goto :: "browser \<Rightarrow> (world, unit) prog" where
  "msAuth_goto B = perform B (Goto login_url)"

definition isAccountFound :: "browser \<Rightarrow> (world, bool) prog" where
  "isAccountFound B = isVisible B ''text=Pick an account'' 5000"

definition enterCredentials :: "browser \<Rightarrow> (world, unit) prog" where
  "enterCredentials B =
     pbind (isAccountFound B) (\<lambda>found.
     pbind (if found then perform B (Click (''text='' @ env_string (MS_USERNAME B)))
            else pbind (perform B (Fill sel_loginfmt (MS_USERNAME B))) (\<lambda>u.
                 perform B (Click sel_submit))) (\<lambda>u.
     pbind (perform B (WaitForSelector sel_passwd 5000)) (\<lambda>u.
     pbind (perform B (Fill sel_passwd (MS_PASSWORD B))) (\<lambda>u.
     perform B (Click sel_submit)))))"

definition handle2FA :: "browser \<Rightarrow> (world, unit) prog" where
  "handle2FA B =
     pcatch
       (pbind (perform B (WaitForURL second_factor_url 60000)) (\<lambda>u.
        perform B (WaitForLoadState ''networkidle'')))
       (\<lambda>error. pret ())"

definition msAuth_authenticate :: "browser \<Rightarrow> (world, bool) prog" where
  "msAuth_authenticate B =
     pcatch
       (pbind (enterCredentials B) (\<lambda>u.
        pbind (pcatch (handle2FA B) (\<lambda>error. pret ())) (\<lambda>u.
        pret True)))
       (\<lambda>error. pthrow (Rejected (JBool False)))"

text \<open>The session file of an identity: \<^verbatim>\<open>sessions/{username}.json\<close>.\<close>

definition session_path :: "string option \<Rightarrow> string" where
  "session_path user = ''sessions/'' @ env_string user @ ''.json''"

text \<open>\<^verbatim>\<open>storageState({ path: `./sessions/${this.username}.json` })\<close>.\<close>

definition saveSession :: "browser \<Rightarrow> string option \<Rightarrow> (world, unit) prog" where
  "saveSession B user =
     (let path = session_path user in
      (\<lambda>w. case fails B (trace w) (StorageState path) of
              Some err \<Rightarrow> (Inl err, w\<lparr>trace := trace w @ [StorageState path]\<rparr>)
            | None \<Rightarrow> (Inr (), w\<lparr>trace := trace w @ [StorageState path],
                                   files := (files w)(path \<mapsto> SessionState)\<rparr>)))"

definition msAuth_saveSession :: "browser \<Rightarrow> (world, unit) prog" where
  "msAuth_saveSession B = saveSession B (MS_USERNAME B)"

definition auth_goto :: "browser \<Rightarrow> (world, unit) prog" where
  "auth_goto B = perform B (Goto login_url)"

text \<open>Lines 22 to 33 of \<^verbatim>\<open>auth/login.ts\<close>: the username and password steps.\<close>

definition auth_enterCredentials :: "browser \<Rightarrow> (world, unit) prog" where
  "auth_enterCredentials B =
     pbind (perform B (Fill sel_loginfmt (env_username B))) (\<lambda>u.
     pbind (perform B (Click sel_submit)) (\<lambda>u.
     pbind (perform B (WaitForSelector sel_passwd 5000)) (\<lambda>u.
     pbind (perform B (Fill sel_passwd (env_password B))) (\<lambda>u.
     perform B (Click sel_submit)))))"

definition auth_authenticate :: "browser \<Rightarrow> (world, bool) prog" where
  "auth_authenticate B =
     pcatch
       (pbind (auth_enterCredentials B) (\<lambda>u.
        pbind (pcatch (handle2FA B) (\<lambda>error. pret ())) (\<lambda>u.
        pret True)))
       (\<lambda>error. pthrow (Rejected (JBool False)))"

definition auth_saveSession :: "browser \<Rightarrow> (world, unit) prog" where
  "auth_saveSession B = saveSession B (env_username B)"

section \<open>The scrapers\<close>

subsection \<open>Cases (\<^verbatim>\<open>MSEDiscoveryCasesScraper\<close>)\<close>

definition cases_url :: "browser \<Rightarrow> string" where
  "cases_url B =
     ''https://purview.microsoft.com/ediscovery/advancedediscovery?viewid=Cases&tid=''
       @ env_string (MS_TENANT_ID B)"

definition scrapeCases :: "browser \<Rightarrow> (world, jsval) prog" where
  "scrapeCases B =
     pbind (emit (WaitForResponse CasesResponse 45000)) (\<lambda>u.
     pbind (perform B (Goto (cases_url B))) (\<lambda>u.
     pbind (await_response B CasesResponse) (\<lambda>response.
     case response of
       Some body \<Rightarrow>
         pbind (plift (ebind (json_of body) (\<lambda>b. js_get b ''value''))) (\<lambda>casesData.
         pbind (console_log (field_string casesData ''length'')) (\<lambda>u.
         pret casesData))
     | None \<Rightarrow> pret (JArr []))))"

subsection \<open>Communications (\<^verbatim>\<open>src/msEdiscovery/communications.ts\<close>)\<close>

definition communications_url :: "browser \<Rightarrow> string \<Rightarrow> string \<Rightarrow> string" where
  "communications_url B case_id case_name =
     ''https://purview.microsoft.com/ediscovery/advancedediscovery/cases/v2/'' @ case_id
       @ ''?tid='' @ env_string (MS_TENANT_ID B) @ ''&casename='' @ case_name
       @ ''&casesworkbench=CommunicationsTab''"

text \<open>The private \<^verbatim>\<open>goto\<close> of the communications scraper; the case is \<^verbatim>\<open>{id, name}\<close>.\<close>

definition communications_goto :: "browser \<Rightarrow> jsval \<Rightarrow> jsval \<Rightarrow> (world, unit) prog" where
  "communications_goto B case_id case_name =
     pbind (plift (js_to_string case_id)) (\<lambda>i.
     pbind (plift (js_to_string case_name)) (\<lambda>n.
     perform B (Goto (communications_url B i n))))"

text \<open>
  \<^verbatim>\<open>fs.appendFile\<close> reports a failure to its callback, which prints it: nothing is thrown,
  and nothing is appended.
\<close>

definition logError :: "browser \<Rightarrow> string \<Rightarrow> error \<Rightarrow> (world, unit) prog" where
  "logError B msg err =
     (\<lambda>w. let entry = \<lparr>timestamp = now B (trace w), message = msg, stack = err\<rparr>;
              e = AppendFile ''error_log.txt'' entry
          in (Inr (),
              case fails B (trace w) e of
                Some failure \<Rightarrow> w\<lparr>trace := trace w @ [e]\<rparr>
              | None \<Rightarrow> w\<lparr>trace := trace w @ [e], error_log := error_log w @ [entry]\<rparr>))"

text \<open>The \<^verbatim>\<open>try\<close> block of \<^verbatim>\<open>scrapeCommunications\<close>, lines 34 to 46.\<close>

definition communications_try :: "browser \<Rightarrow> jsval \<Rightarrow> jsval \<Rightarrow> (world, jsval) prog" where
  "communications_try B case_id case_name =
     pbind (emit (WaitForResponse CommunicationsResponse 45000)) (\<lambda>u.
     pbind (communications_goto B case_id case_name) (\<lambda>u.
     pbind (await_response B CommunicationsResponse) (\<lambda>response.
     case response of
       Some body \<Rightarrow>
         pbind (plift (ebind (json_of body) (\<lambda>b. js_get b ''value''))) (\<lambda>communicationsData.
         pbind (console_log (field_string communicationsData ''length'')) (\<lambda>u.
         pret communicationsData))
     | None \<Rightarrow> pret (JArr []))))"

text \<open>Its \<^verbatim>\<open>catch\<close> block, lines 47 to 51.\<close>

definition communications_catch :: "browser \<Rightarrow> jsval \<Rightarrow> error \<Rightarrow> (world, jsval) prog" where
  "communications_catch B case_name err =
     pbind (plift (js_to_string case_name)) (\<lambda>n.
     pbind (logError B (''Error scraping communications for case '' @ n) err) (\<lambda>u.
     pret (JArr [])))"

text \<open>
  The whole method. Two things lie outside this model. When \<^verbatim>\<open>goto\<close> throws, the wait
  registered on the line before is never awaited, and its later rejection is handled by
  nobody; here the error is contained by the \<^verbatim>\<open>catch\<close> and the run goes on. And
  \<^verbatim>\<open>fs.appendFile\<close> is started without being awaited; here the entry is in the log as soon
  as \<open>logError\<close> has run.
\<close>

definition scrapeCommunications :: "browser \<Rightarrow> jsval \<Rightarrow> jsval \<Rightarrow> (world, jsval) prog" where
  "scrapeCommunications B case_id case_name =
     pcatch (communications_try B case_id case_name) (communications_catch B case_name)"

subsection \<open>Templates (\<^verbatim>\<open>MSEDiscoveryTemplateScraper\<close>)\<close>

definition sel_get_started :: string where
  \<open>sel_get_started = ''button:has-text("Get started")''\<close>

definition sel_done :: string where
  \<open>sel_done = ''button:has-text("Done")''\<close>

definition sel_edit :: string where
  \<open>sel_edit = ''button:has-text("Edit")''\<close>

definition sel_cancel :: string where
  \<open>sel_cancel = ''button:has-text("Cancel")''\<close>

definition sel_row :: string where
  \<open>sel_row = ''[data-automationid="DetailsRow"]''\<close>

definition templates_url :: "string option \<Rightarrow> string" where
  "templates_url tenant =
     ''https://purview.microsoft.com/ediscovery/advancedediscovery/globalsettings?viewid=Overview&tid=''
       @ env_string tenant"

definition handlePopup :: "browser \<Rightarrow> (world, unit) prog" where
  "handlePopup B =
     pbind (perform B (Click sel_get_started)) (\<lambda>u.
     pbind (perform B (WaitForTimeout 2000)) (\<lambda>u.
     pbind (perform B (Click sel_done)) (\<lambda>u.
     perform B (WaitForTimeout 2000))))"

text \<open>
  The scraper reads its tenant id from the environment when it is constructed; here it is the
  argument \<open>tenant\<close>.
\<close>

definition templates_goto :: "browser \<Rightarrow> string option \<Rightarrow> (world, unit) prog" where
  "templates_goto B tenant =
     pbind (perform B (Goto (templates_url tenant))) (\<lambda>u.
     pbind (handlePopup B) (\<lambda>u.
     perform B (WaitForSelector ''text=Communication Library'' 20000)))"

definition clickOnCommunicationLibrary :: "browser \<Rightarrow> (world, unit) prog" where
  "clickOnCommunicationLibrary B =
     pbind (perform B (Click ''#CommunicationLibrary'')) (\<lambda>u.
     perform B (WaitForSelector sel_row 10000))"

text \<open>\<^verbatim>\<open>await templateRow.all()\<close>: the rows of the list view, as many as the browser shows.\<close>

definition all_rows :: "browser \<Rightarrow> (world, nat list) prog" where
  "all_rows B =
     (\<lambda>w. (case fails B (trace w) (AllRows sel_row) of
              Some err \<Rightarrow> Inl err
            | None \<Rightarrow> Inr [0 ..< row_count B (trace w) (AllRows sel_row)],
           w\<lparr>trace := trace w @ [AllRows sel_row]\<rparr>))"

definition innerText :: "browser \<Rightarrow> nat \<Rightarrow> (world, string) prog" where
  "innerText B row =
     (\<lambda>w. (case fails B (trace w) (RowInnerText row) of
              Some err \<Rightarrow> Inl err
            | None \<Rightarrow> Inr (inner_text B (trace w) (RowInnerText row)),
           w\<lparr>trace := trace w @ [RowInnerText row]\<rparr>))"

text \<open>The body of the row loop, lines 48 to 68: one row, and the templates collected so far.\<close>

definition scrape_row :: "browser \<Rightarrow> nat \<Rightarrow> jsval list \<Rightarrow> (world, jsval list) prog" where
  "scrape_row B row templates =
     pbind (innerText B row) (\<lambda>templateName.
     pbind (perform B (RowClick row)) (\<lambda>u.
     pbind (emit (WaitForResponse TemplateResponse 15000)) (\<lambda>u.
     pbind (perform B (Click sel_edit)) (\<lambda>u.
     pbind (await_response B TemplateResponse) (\<lambda>response.
     pbind (case response of
              Some body \<Rightarrow> pbind (plift (json_of body)) (\<lambda>templateData.
                           pret (templates @ [templateData]))
            | None \<Rightarrow> pret templates) (\<lambda>pushed.
     pbind (perform B (Click sel_cancel)) (\<lambda>u.
     pret pushed)))))))"

definition scrapeTemplates :: "browser \<Rightarrow> (world, jsval list) prog" where
  "scrapeTemplates B =
     pbind (all_rows B) (\<lambda>templateRows.
     for_each_acc templateRows (scrape_row B) [])"

section \<open>The scraping orchestrators (\<^verbatim>\<open>src/scraper.ts\<close>, \<^verbatim>\<open>src/index.ts\<close>)\<close>

text \<open>
  \<^verbatim>\<open>scraper.ts\<close>, lines 37 to 53: go to the login page, probe it for a sign-in prompt, and log
  in when the prompt shows.
\<close>

definition scraper_login :: "browser \<Rightarrow> (world, unit) prog" where
  "scraper_login B =
     pbind (msAuth_goto B) (\<lambda>u.
     pbind (isVisible B ''text=Sign in, text=Pick an account'' 10000) (\<lambda>prompt.
     if \<not> prompt then pret ()
     else pbind (msAuth_authenticate B) (\<lambda>loginSuccess.
          if loginSuccess then msAuth_saveSession B else pret ())))"

text \<open>\<^verbatim>\<open>scraper.ts\<close>, lines 77 to 90: the body of the loop over the cases.\<close>

definition export_case :: "browser \<Rightarrow> jsval \<Rightarrow> (world, unit) prog" where
  "export_case B eDiscoveryCase =
     pbind (console_log (js_to_string eDiscoveryCase)) (\<lambda>u.
     pbind (plift (js_get eDiscoveryCase ''id'')) (\<lambda>case_id.
     pbind (plift (js_get eDiscoveryCase ''displayName'')) (\<lambda>case_name.
     pbind (scrapeCommunications B case_id case_name) (\<lambda>communications.
     pbind (plift (js_get communications ''length'')) (\<lambda>communicationsCount.
     pbind (console_log (js_to_string communicationsCount)) (\<lambda>u.
     pbind (console_log (field_string eDiscoveryCase ''displayName'')) (\<lambda>u.
     pbind (plift (js_gt0 B communicationsCount)) (\<lambda>nonempty.
     if nonempty then
       pbind (plift (field_string eDiscoveryCase ''id'')) (\<lambda>i.
       pbind (writeJson B (''exports/communications_'' @ i @ ''.json'') communications) (\<lambda>u.
       console_log (field_string eDiscoveryCase ''displayName'')))
     else pret ()))))))))"

text \<open>
  \<^verbatim>\<open>scraper.ts\<close> imports its template scraper from \<^verbatim>\<open>msEdiscovery/templates\<close>; the class
  \<^verbatim>\<open>MSEDiscoveryTemplateScraper\<close> above is used for it, with \<^verbatim>\<open>MS_TENANT_ID\<close> as its tenant.
\<close>

text \<open>Lines 55 to 68: scrape the templates and export them.\<close>

definition scraper_templates :: "browser \<Rightarrow> (world, unit) prog" where
  "scraper_templates B =
     pbind (templates_goto B (MS_TENANT_ID B)) (\<lambda>u.
     pbind (clickOnCommunicationLibrary B) (\<lambda>u.
     pbind (scrapeTemplates B) (\<lambda>templates.
     writeJson B ''exports/templates.json'' (JArr templates))))"

text \<open>Lines 70 to 91: scrape the cases, then the communications of each case.\<close>

definition scraper_communications :: "browser \<Rightarrow> (world, unit) prog" where
  "scraper_communications B =
     pbind (scrapeCases B) (\<lambda>eDiscoveryCases.
     pbind (console_log (field_string eDiscoveryCases ''length'')) (\<lambda>u.
     pbind (plift (iterate eDiscoveryCases)) (\<lambda>cases.
     for_each cases (export_case B))))"

definition teardown :: "browser \<Rightarrow> (world, unit) prog" where
  "teardown B = pbind (perform B CloseContext) (\<lambda>u. perform B CloseBrowser)"

text \<open>Lines 16 to 34: launch the browser on the saved session, open a page, make \<^verbatim>\<open>exports/\<close>.\<close>

definition scraper_setup :: "browser \<Rightarrow> (world, unit) prog" where
  "scraper_setup B =
     pbind (perform B Launch) (\<lambda>u.
     pbind (perform B (NewContext (session_path (MS_USERNAME B)))) (\<lambda>u.
     pbind (perform B NewPage) (\<lambda>u.
     perform B (MkdirSync ''exports''))))"

definition scraper_main :: "browser \<Rightarrow> (world, unit) prog" where
  "scraper_main B =
     pbind (scraper_setup B) (\<lambda>u.
     pbind (scraper_login B) (\<lambda>u.
     pbind (scraper_templates B) (\<lambda>u.
     pbind (scraper_communications B) (\<lambda>u.
     teardown B))))"

text \<open>\<^verbatim>\<open>existsSync(path)\<close>.\<close>

definition existsSync :: "string \<Rightarrow> (world, bool) prog" where
  "existsSync path = (\<lambda>w. (Inr (files w path \<noteq> None), w))"

text \<open>\<^verbatim>\<open>index.ts\<close>, lines 26 to 39: log in unless the session file is there.\<close>

definition index_login :: "browser \<Rightarrow> (world, unit) prog" where
  "index_login B =
     pbind (existsSync (session_path (env_username B))) (\<lambda>found.
     if found then pret ()
     else pbind (auth_goto B) (\<lambda>u.
          pbind (auth_authenticate B) (\<lambda>loginSuccess.
          if loginSuccess then auth_saveSession B else pret ())))"

text \<open>\<^verbatim>\<open>index.ts\<close>, lines 41 to 47: scrape the templates and print them.\<close>

definition index_templates :: "browser \<Rightarrow> (world, unit) prog" where
  "index_templates B =
     pbind (templates_goto B (env_tenant_id B)) (\<lambda>u.
     pbind (clickOnCommunicationLibrary B) (\<lambda>u.
     pbind (scrapeTemplates B) (\<lambda>templates.
     pret ())))"

text \<open>\<^verbatim>\<open>index.ts\<close>, lines 15 to 24: launch the browser on the saved session and open a page.\<close>

definition index_setup :: "browser \<Rightarrow> (world, unit) prog" where
  "index_setup B =
     pbind (perform B Launch) (\<lambda>u.
     pbind (perform B (NewContext (session_path (env_username B)))) (\<lambda>u.
     perform B NewPage))"

definition index_main :: "browser \<Rightarrow> (world, unit) prog" where
  "index_main B =
     pbind (index_setup B) (\<lambda>u.
     pbind (index_login B) (\<lambda>u.
     pbind (index_templates B) (\<lambda>u.
     teardown B)))"

section \<open>Vocabulary of the scraping claims\<close>

text \<open>
  What \<open>handle2FA\<close> does after the events \<open>h\<close>: it waits for the second-factor URL and,
  when that wait completes, for the network to go idle.
\<close>

definition second_factor_events :: "browser \<Rightarrow> event list \<Rightarrow> event list" where
  "second_factor_events B h =
     (if fails B h (WaitForURL second_factor_url 60000) = None
      then [WaitForURL second_factor_url 60000, WaitForLoadState ''networkidle'']
      else [WaitForURL second_factor_url 60000])"

text \<open>
  What a scraper makes of a collection response: the \<^verbatim>\<open>value\<close> entry of the parsed body,
  after its \<^verbatim>\<open>length\<close> has been read and printed.
\<close>

definition collection_of :: "jsval option \<Rightarrow> error + jsval" where
  "collection_of body =
     ebind (ebind (json_of body) (\<lambda>b. js_get b ''value'')) (\<lambda>data.
     ebind (field_string data ''length'') (\<lambda>shown. Inr data))"

text \<open>The log entry \<open>scrapeCommunications\<close> writes for the error \<open>err\<close>, and the world after
  \<^verbatim>\<open>fs.appendFile\<close> has run on it.\<close>

definition scrape_entry :: "browser \<Rightarrow> event list \<Rightarrow> string \<Rightarrow> error \<Rightarrow> log_entry" where
  "scrape_entry B h name err =
     \<lparr>timestamp = now B h, message = ''Error scraping communications for case '' @ name,
      stack = err\<rparr>"

definition logged :: "browser \<Rightarrow> log_entry \<Rightarrow> world \<Rightarrow> world" where
  "logged B entry w =
     (case fails B (trace w) (AppendFile ''error_log.txt'' entry) of
        Some failure \<Rightarrow> w\<lparr>trace := trace w @ [AppendFile ''error_log.txt'' entry]\<rparr>
      | None \<Rightarrow> w\<lparr>trace := trace w @ [AppendFile ''error_log.txt'' entry],
                  error_log := error_log w @ [entry]\<rparr>)"

text \<open>
  One open, capture, cancel cycle on row \<open>i\<close> of the list view: read the name, select the
  row, register the wait for the detail response, open the edit panel, await the response,
  dismiss the panel.
\<close>

definition row_cycle :: "nat \<Rightarrow> event list" where
  "row_cycle i =
     [RowInnerText i, RowClick i, WaitForResponse TemplateResponse 15000, Click sel_edit,
      AwaitResponse TemplateResponse, Click sel_cancel]"

text \<open>
  At most one detail request in flight: a wait is registered only when none is pending, and
  awaited before the next one is registered.
\<close>

fun sequential :: "bool \<Rightarrow> event list \<Rightarrow> bool" where
  "sequential pending [] = True"
| "sequential pending (WaitForResponse p t # es) = (\<not> pending \<and> sequential True es)"
| "sequential pending (AwaitResponse p # es) = (pending \<and> sequential False es)"
| "sequential pending (e # es) = sequential pending es"

text \<open>
  The interactions with the login page: navigating to it, filling a field (only the login
  forms are ever filled), clicking a submit button, clicking an account tile.
\<close>

definition login_interaction :: "event \<Rightarrow> bool" where
  "login_interaction e =
     (case e of
        Goto url \<Rightarrow> url = login_url
      | Fill selector text \<Rightarrow> True
      | Click selector \<Rightarrow> selector = sel_submit \<or> startsWith selector ''text=''
      | other \<Rightarrow> False)"

text \<open>The probe of \<^verbatim>\<open>scraper.ts\<close> for a sign-in prompt.\<close>

definition probe :: event where
  "probe = IsVisible ''text=Sign in, text=Pick an account'' 10000"

text \<open>The files written by a list of events, in order.\<close>

fun written :: "event list \<Rightarrow> (string \<times> jsval) list" where
  "written [] = []"
| "written (WriteFileSync path v # es) = (path, v) # written es"
| "written (e # es) = written es"

definition export_path :: "string \<Rightarrow> string" where
  "export_path case_id = ''exports/communications_'' @ case_id @ ''.json''"

text \<open>
  Proof devices for the scraping runs. \<open>preserves R m\<close>: the world after \<open>m\<close> is related by
  \<open>R\<close> to the world before it. \<open>extends_trace P\<close>: the later world has the trace of the
  earlier one, extended by events that all satisfy \<open>P\<close>. \<open>page_only\<close>: moreover no file and
  no log entry has changed.
\<close>

definition preserves :: "(world \<Rightarrow> world \<Rightarrow> bool) \<Rightarrow> (world, 'a) prog \<Rightarrow> bool" where
  "preserves R m = (\<forall>w. R w (snd (m w)))"

definition extends_trace :: "(event \<Rightarrow> bool) \<Rightarrow> world \<Rightarrow> world \<Rightarrow> bool" where
  "extends_trace P w w' = (\<exists>new. trace w' = trace w @ new \<and> list_all P new)"

definition page_only :: "(event \<Rightarrow> bool) \<Rightarrow> world \<Rightarrow> world \<Rightarrow> bool" where
  "page_only P w w' =
     (files w' = files w \<and> error_log w' = error_log w \<and> extends_trace P w w')"

text \<open>A run of scraping: the trace grows by events that are no login interaction.\<close>

abbreviation scraping_only :: "world \<Rightarrow> world \<Rightarrow> bool" where
  "scraping_only \<equiv> extends_trace (\<lambda>e. \<not> login_interaction e)"

text \<open>
  The bodies that the browser delivers to the detail waits of the cycles on \<open>rows\<close>, begun
  after the events \<open>h\<close>: one for each wait that resolves with a response whose body is JSON.
\<close>

fun detail_bodies :: "browser \<Rightarrow> event list \<Rightarrow> nat list \<Rightarrow> jsval list" where
  "detail_bodies B h [] = []"
| "detail_bodies B h (i # rows) =
     (case awaited_response B (h @ [RowInnerText i, RowClick i,
             WaitForResponse TemplateResponse 15000, Click sel_edit])
           (AwaitResponse TemplateResponse) of
        Response (Some body) \<Rightarrow> [body]
      | other \<Rightarrow> [])
     @ detail_bodies B (h @ row_cycle i) rows"

section \<open>Example worlds\<close>

text \<open>A destination that issues a token and accepts every template.\<close>

definition accepting_api :: "request list \<Rightarrow> request \<Rightarrow> http_reply" where
  "accepting_api hist req =
     (case req of
        AuthenticateUser email password \<Rightarrow>
          ReplyJson (JObj [(''data'', JObj [(''authenticateUser'',
            JObj [(''accessToken'', JStr ''tok''), (''refreshToken'', JStr ''ref''),
                  (''userId'', JStr ''u1''), (''tenant_id'', JStr ''T'')])])])
      | CreateTemplate h n d t \<Rightarrow>
          ReplyJson (JObj [(''data'', JObj [(''createTemplate'', JStr ''id'')])]))"

text \<open>A destination that refuses the credentials: \<^verbatim>\<open>{"errors":[{"message":"Invalid credentials"}],"data":null}\<close>.\<close>

definition refusing_api :: "request list \<Rightarrow> request \<Rightarrow> http_reply" where
  "refusing_api hist req =
     (case req of
        AuthenticateUser email password \<Rightarrow>
          ReplyJson (JObj [(''errors'', JArr [JObj [(''message'', JStr ''Invalid credentials'')]]),
                           (''data'', JNull)])
      | CreateTemplate h n d t \<Rightarrow>
          ReplyJson (JObj [(''data'', JObj [(''createTemplate'', JStr ''id'')])]))"

definition template_A :: jsval where
  "template_A = JObj [(''templateName'', JStr ''A''), (''issuance'', JObj [(''body'', JStr ''x'')])]"

definition template_B :: jsval where
  "template_B = JObj [(''templateName'', JStr ''B''), (''issuance'', JObj [(''body'', JNull)])]"

definition communication_1 :: jsval where
  "communication_1 =
     JObj [(''Name'', JStr ''N''), (''CaseName'', JStr ''C''),
           (''IssuanceSubject'', JStr ''S1''), (''IssuanceContent'', JStr ''i''),
           (''ReissuanceSubject'', JStr ''S2''), (''ReissuanceContent'', JStr ''r''),
           (''ReleaseSubject'', JStr ''S3''), (''ReleaseContent'', JNull)]"

definition refused_run :: replay_env where
  "refused_run =
     \<lparr>api = refusing_api, ZUBU_USERNAME = Some ''u'', ZUBU_PASSWORD = Some ''p'',
      exports = Some [(''templates.json'', Json (JArr [template_A])),
                      (''communications_c1.json'', Json (JArr [communication_1]))],
      launch = None, closing = None\<rparr>"

text \<open>
  A destination that answers the create-template request named \<^verbatim>\<open>C - N - S1\<close> with an
  error array, and accepts everything else.
\<close>

definition rejecting_api :: "request list \<Rightarrow> request \<Rightarrow> http_reply" where
  "rejecting_api hist req =
     (case req of
        CreateTemplate h n d t \<Rightarrow>
          (if n = ''C - N - S1''
           then ReplyJson (JObj [(''errors'', JArr [JObj [(''message'', JStr ''name taken'')]])])
           else accepting_api hist req)
      | other \<Rightarrow> accepting_api hist req)"

definition rejected_run :: replay_env where
  "rejected_run =
     \<lparr>api = rejecting_api, ZUBU_USERNAME = Some ''u'', ZUBU_PASSWORD = Some ''p'',
      exports = Some [(''templates.json'', Json (JArr [template_A])),
                      (''communications_c1.json'', Json (JArr [communication_1])),
                      (''communications_c2.json'', Json (JArr [communication_1]))],
      launch = None, closing = None\<rparr>"




text \<open>An export directory whose \<^verbatim>\<open>templates.json\<close> holds two templates, and nothing else.\<close>

definition two_template_run :: replay_env where
  "two_template_run =
     \<lparr>api = accepting_api, ZUBU_USERNAME = Some ''u'', ZUBU_PASSWORD = Some ''p'',
      exports = Some [(''templates.json'', Json (JArr [template_A, template_B]))],
      launch = None, closing = None\<rparr>"

text \<open>A browser in which everything works, except that the second factor never completes.\<close>

definition no_second_factor :: browser where
  "no_second_factor =
     \<lparr>fails = (\<lambda>h e. case e of WaitForURL url t \<Rightarrow> Some TimeoutError | other \<Rightarrow> None),
      visible = (\<lambda>h e. False),
      row_count = (\<lambda>h e. 0),
      inner_text = (\<lambda>h e. ''''),
      awaited_response = (\<lambda>h e. TimedOut),
      now = (\<lambda>h. ''2025-01-01T00:00:00.000Z''),
      positive = (\<lambda>s. False),
      MS_USERNAME = Some ''alice@example.com'', MS_PASSWORD = Some ''pw'',
      MS_TENANT_ID = Some ''T'',
      env_username = Some ''alice@example.com'', env_password = Some ''pw'',
      env_tenant_id = Some ''T''\<rparr>"

definition empty_world :: world where
  "empty_world = \<lparr>trace = [], files = Map.empty, error_log = []\<rparr>"

text \<open>
  A console that works: every call completes, the list view shows two rows, and every awaited
  response arrives. The cases response is \<^verbatim>\<open>{value: [{id: "c1", displayName: "Case One"}]}\<close>.
\<close>

definition case_one :: jsval where
  "case_one = JObj [(''id'', JStr ''c1''), (''displayName'', JStr ''Case One'')]"

definition mock_console :: browser where
  "mock_console =
     \<lparr>fails = (\<lambda>h e. None),
      visible = (\<lambda>h e. False),
      row_count = (\<lambda>h e. 2),
      inner_text = (\<lambda>h e. ''row''),
      awaited_response = (\<lambda>h e. case e of
          AwaitResponse CasesResponse \<Rightarrow> Response (Some (JObj [(''value'', JArr [case_one])]))
        | AwaitResponse CommunicationsResponse \<Rightarrow>
            Response (Some (JObj [(''value'', JArr [communication_1])]))
        | other \<Rightarrow> Response (Some template_A)),
      now = (\<lambda>h. ''2025-01-01T00:00:00.000Z''),
      positive = (\<lambda>s. False),
      MS_USERNAME = Some ''alice@example.com'', MS_PASSWORD = Some ''pw'',
      MS_TENANT_ID = Some ''T'',
      env_username = Some ''alice@example.com'', env_password = Some ''pw'',
      env_tenant_id = Some ''T''\<rparr>"

text \<open>The same console with one row, and no response ever arriving in time.\<close>

definition unresponsive :: browser where
  "unresponsive = mock_console\<lparr>row_count := (\<lambda>h e. 1), awaited_response := (\<lambda>h e. TimedOut)\<rparr>"

text \<open>A world in which the session of \<^verbatim>\<open>alice@example.com\<close> has been saved.\<close>

definition saved_session :: world where
  "saved_session =
     empty_world\<lparr>files := [''sessions/alice@example.com.json'' \<mapsto> SessionState]\<rparr>"

text \<open>The empty world after the communications of case \<^verbatim>\<open>c1\<close> have been scraped on the
  console that works.\<close>

definition after_scrape :: world where
  "after_scrape =
     empty_world\<lparr>trace := [WaitForResponse CommunicationsResponse 45000,
        Goto (communications_url mock_console ''c1'' ''Case One''),
        AwaitResponse CommunicationsResponse]\<rparr>"

text \<open>
  A destination whose authenticate-user reply is an error response that still carries the
  user: the access and refresh tokens could not be issued and are \<^verbatim>\<open>null\<close>, and the
  \<^verbatim>\<open>errors\<close> array says so. It accepts every template.
\<close>

definition token_error_body :: jsval where
  "token_error_body =
     JObj [(''errors'', JArr [JObj [(''message'', JStr ''token service unavailable'')]]),
           (''data'', JObj [(''authenticateUser'',
              JObj [(''accessToken'', JNull), (''refreshToken'', JNull),
                    (''userId'', JStr ''u1''), (''tenant_id'', JStr ''T'')])])]"

definition token_error_api :: "request list \<Rightarrow> request \<Rightarrow> http_reply" where
  "token_error_api hist req =
     (case req of
        AuthenticateUser email password \<Rightarrow> ReplyJson token_error_body
      | CreateTemplate h n d t \<Rightarrow>
          ReplyJson (JObj [(''data'', JObj [(''createTemplate'', JStr ''id'')])]))"

definition token_error_run :: replay_env where
  "token_error_run =
     \<lparr>api = token_error_api, ZUBU_USERNAME = Some ''u'', ZUBU_PASSWORD = Some ''p'',
      exports = Some [(''templates.json'', Json (JArr [template_A])),
                      (''communications_c1.json'', Json (JArr [communication_1]))],
      launch = None, closing = None\<rparr>"

text \<open>A list view of two rows on the console whose responses never arrive in time.\<close>

definition stalled_list :: browser where
  "stalled_list = unresponsive\<lparr>row_count := (\<lambda>h e. 2)\<rparr>"

section \<open>Properties\<close>

subsection \<open>Laws of sequencing\<close>

lemma pbind_pret [simp]: "pbind (pret x) f = f x"
  by (simp add: pbind_def pret_def)

lemma pbind_pthrow [simp]: "pbind (pthrow e) f = pthrow e"
  by (simp add: pbind_def pthrow_def)

lemma pbind_plift_Inr [simp]: "pbind (plift (Inr x)) f = f x"
  by (simp add: pbind_def plift_def)

lemma pbind_plift_Inl [simp]: "pbind (plift (Inl e)) f = pthrow e"
  by (simp add: pbind_def plift_def pthrow_def)

lemma pbind_Inl: "m s = (Inl e, s') \<Longrightarrow> pbind m f s = (Inl e, s')"
  by (simp add: pbind_def)

lemma pbind_Inr: "m s = (Inr x, s') \<Longrightarrow> pbind m f s = f x s'"
  by (simp add: pbind_def)

subsection \<open>The Replay Client\<close>

lemmas run_defs = migrator_def authenticateUser_def createTemplate_def replay_templates_def
  replay_template_def replay_template_type_def replay_file_def replay_communication_def
  create_for_def console_log_def field_string_def readJson_def readdirSync_def matchedFiles_def
  startsWith_def templateTypes_def auth_field_def response_json_def post_def
  pbind_def pcatch_def plift_def pret_def pthrow_def ebind_def JSON_stringify_def json_quote_def
  json_escape_def

text \<open>
  \<open>authenticateUser\<close> posts exactly one request, and either returns the tokens or throws
  \<^verbatim>\<open>Authentication failed\<close>, whatever went wrong inside.
\<close>

lemma authenticateUser_cases:
  "authenticateUser E u p tr = (Inl (Error ''Authentication failed''), tr @ [AuthenticateUser u p])
   \<or> (\<exists>a. authenticateUser E u p tr = (Inr a, tr @ [AuthenticateUser u p]))"
  by (simp add: authenticateUser_def pcatch_def pbind_def post_def plift_def pret_def pthrow_def
      split: http_reply.splits sum.splits prod.splits)

text \<open>
  It throws exactly when the request fails, the body is not JSON, or the body has no object at
  \<^verbatim>\<open>data.authenticateUser\<close>. The \<^verbatim>\<open>errors\<close> entry of the body is never read.
\<close>

lemma authenticateUser_throws_iff:
  "(\<exists>e. fst (authenticateUser E u p tr) = Inl e) \<longleftrightarrow>
   (case api E tr (AuthenticateUser u p) of
      RequestFailed \<Rightarrow> True
    | ReplyNotJson \<Rightarrow> True
    | ReplyJson b \<Rightarrow>
        (case ebind (js_get b ''data'') (\<lambda>d. js_get d ''authenticateUser'') of
           Inl e \<Rightarrow> True
         | Inr a \<Rightarrow> a = JNull \<or> a = JUndefined))"
proof (cases "api E tr (AuthenticateUser u p)")
  case RequestFailed
  then show ?thesis
    by (simp add: authenticateUser_def pcatch_def pbind_def post_def pthrow_def)
next
  case ReplyNotJson
  then show ?thesis
    by (simp add: authenticateUser_def pcatch_def pbind_def post_def pthrow_def plift_def
        response_json_def)
next
  case (ReplyJson b)
  show ?thesis
  proof (cases "ebind (js_get b ''data'') (\<lambda>d. js_get d ''authenticateUser'')")
    case (Inl e)
    then have "auth_field b ''accessToken'' = Inl e"
      by (auto simp: auth_field_def ebind_def split: sum.splits)
    with ReplyJson Inl show ?thesis
      by (simp add: authenticateUser_def pcatch_def pbind_def post_def pthrow_def plift_def
          response_json_def)
  next
    case (Inr a)
    then have f: "auth_field b k = js_get a k" for k
      by (auto simp: auth_field_def ebind_def split: sum.splits)
    show ?thesis
    proof (cases "a = JNull \<or> a = JUndefined")
      case True
      then have "js_get a ''accessToken'' = Inl TypeError" by auto
      with ReplyJson Inr True f show ?thesis
        by (simp add: authenticateUser_def pcatch_def pbind_def post_def pthrow_def plift_def
            response_json_def)
    next
      case False
      then have "\<exists>v. js_get a k = Inr v" for k by (cases a) simp_all
      then obtain v1 v2 v3 v4 where
        "js_get a ''accessToken'' = Inr v1" "js_get a ''refreshToken'' = Inr v2"
        "js_get a ''userId'' = Inr v3" "js_get a ''tenant_id'' = Inr v4"
        by metis
      with ReplyJson Inr False f show ?thesis
        by (simp add: authenticateUser_def pcatch_def pbind_def post_def pthrow_def plift_def
            pret_def response_json_def)
    qed
  qed
qed

subsection \<open>Replay and a failed authentication\<close>

text \<open>
  When \<open>authenticateUser\<close> throws on the reply it gets, the replay run stops there with
  \<^verbatim>\<open>Authentication failed\<close>: the only request it has posted is the authenticate-user one.
  (When the browser cannot even be launched the run posts nothing at all.)
\<close>

lemma thrown_authentication_aborts_replay:
  assumes "fst (authenticateUser E (ZUBU_USERNAME E) (ZUBU_PASSWORD E) []) = Inl e"
  shows "migrator E [] =
    (case launch E of
       None \<Rightarrow> (Inl (Error ''Authentication failed''),
                 [AuthenticateUser (ZUBU_USERNAME E) (ZUBU_PASSWORD E)])
     | Some e' \<Rightarrow> (Inl e', []))"
proof (cases "launch E")
  case None
  from authenticateUser_cases [of E "ZUBU_USERNAME E" "ZUBU_PASSWORD E" "[]"] assms
  have "authenticateUser E (ZUBU_USERNAME E) (ZUBU_PASSWORD E) [] =
      (Inl (Error ''Authentication failed''), [AuthenticateUser (ZUBU_USERNAME E) (ZUBU_PASSWORD E)])"
    by auto
  then show ?thesis using None
    by (simp add: migrator_def pbind_Inl)
next
  case (Some e')
  then show ?thesis
    by (simp add: migrator_def pthrow_def)
qed

lemma refused_run_auth:
  "authenticateUser refused_run (Some ''u'') (Some ''p'') [] =
     (Inl (Error ''Authentication failed''), [AuthenticateUser (Some ''u'') (Some ''p'')])"
  by (simp add: authenticateUser_def pcatch_def pbind_def post_def pthrow_def plift_def
      response_json_def refused_run_def refusing_api_def auth_field_def ebind_def)

lemma refused_run_aborts:
  "fst (authenticateUser refused_run (ZUBU_USERNAME refused_run) (ZUBU_PASSWORD refused_run) [])
     = Inl (Error ''Authentication failed'')
   \<and> migrator refused_run [] =
       (Inl (Error ''Authentication failed''), [AuthenticateUser (Some ''u'') (Some ''p'')])"
proof -
  have u: "ZUBU_USERNAME refused_run = Some ''u''" "ZUBU_PASSWORD refused_run = Some ''p''"
    "launch refused_run = None"
    by (simp_all add: refused_run_def)
  have h: "fst (authenticateUser refused_run (ZUBU_USERNAME refused_run)
      (ZUBU_PASSWORD refused_run) []) = Inl (Error ''Authentication failed'')"
    by (simp add: u refused_run_auth)
  from thrown_authentication_aborts_replay [OF h] h show ?thesis
    by (simp add: u)
qed

text \<open>
  Claim C5 (the code departs from it). \<open>authenticateUser\<close> never reads the \<^verbatim>\<open>errors\<close>
  entry of the reply; it fails only by not finding an object at \<^verbatim>\<open>data.authenticateUser\<close>
  (lemma \<open>authenticateUser_throws_iff\<close>). An error response that still carries an object
  there is taken for a success: the run goes on, posts every create-template request with
  the authorization \<^verbatim>\<open>Bearer null\<close>, and ends normally.
\<close>

theorem error_response_with_token_object_is_not_detected:
  "api token_error_run [] (AuthenticateUser (Some ''u'') (Some ''p'')) = ReplyJson token_error_body
   \<and> has_error_array token_error_body
   \<and> migrator token_error_run [] =
     (Inr (),
      [AuthenticateUser (Some ''u'') (Some ''p''),
       CreateTemplate ''Bearer null'' ''A - issuance'' (JSON_stringify (JStr ''x'')) (JStr ''T''),
       CreateTemplate ''Bearer null'' ''C - N - S1'' (JSON_stringify (JStr ''i'')) (JStr ''T''),
       CreateTemplate ''Bearer null'' ''C - N - S2'' (JSON_stringify (JStr ''r'')) (JStr ''T''),
       CreateTemplate ''Bearer null'' ''C - N - S3'' (JSON_stringify JNull) (JStr ''T'')])"
  by (simp add: run_defs token_error_run_def token_error_api_def token_error_body_def
      has_error_array_def template_A_def communication_1_def)

subsection \<open>A create call answered with an error array ends the run\<close>

lemma createTemplate_token_throws:
  "js_to_string token = Inl e \<Longrightarrow>
   createTemplate E token input tr = (Inl (Error ''Template creation failed''), tr)"
  by (simp add: createTemplate_def pcatch_def pthrow_def)

lemma createTemplate_unfold:
  assumes "js_to_string token = Inr tok"
  shows "createTemplate E token input tr =
    (let req = CreateTemplate (''Bearer '' @ tok) (templateName input) (templateBody input) (tenantId input);
         failed = (Inl (Error ''Template creation failed''), tr @ [req])
     in case api E tr req of
          RequestFailed \<Rightarrow> failed
        | ReplyNotJson \<Rightarrow> failed
        | ReplyJson result \<Rightarrow>
            (case js_get result ''errors'' of
               Inl e \<Rightarrow> failed
             | Inr errors \<Rightarrow>
                 if truthy errors then failed
                 else (case ebind (js_get result ''data'') (\<lambda>d. js_get d ''createTemplate'') of
                         Inl e \<Rightarrow> failed
                       | Inr v \<Rightarrow> (Inr v, tr @ [req]))))"
  using assms
  by (simp add: createTemplate_def pcatch_def pbind_def post_def plift_def pthrow_def Let_def
      response_json_def split: http_reply.splits sum.splits)

lemma truthy_error_array: "has_error_array b \<Longrightarrow> js_get b ''errors'' = Inr errs \<Longrightarrow> truthy errs"
  by (auto simp: has_error_array_def split: sum.splits jsval.splits)

text \<open>What one call of createTemplate does to the list of posted requests.\<close>

lemma createTemplate_cases:
  obtains
    (silent) "createTemplate E token input tr = (Inl (Error ''Template creation failed''), tr)"
  | (failed) req where "is_create req"
      "createTemplate E token input tr = (Inl (Error ''Template creation failed''), tr @ [req])"
  | (created) req v where "is_create req" "\<not> error_reply E tr req"
      "createTemplate E token input tr = (Inr v, tr @ [req])"
proof (cases "js_to_string token")
  case (Inl e)
  then show ?thesis using silent createTemplate_token_throws by blast
next
  case (Inr tok)
  define req where "req = CreateTemplate (''Bearer '' @ tok) (templateName input) (templateBody input) (tenantId input)"
  have c: "is_create req" by (simp add: req_def is_create_def)
  note u = createTemplate_unfold [OF Inr, of E input tr, unfolded Let_def, folded req_def]
  show ?thesis
  proof (cases "createTemplate E token input tr = (Inl (Error ''Template creation failed''), tr @ [req])")
    case True
    then show ?thesis using failed c by blast
  next
    case False
    with u obtain result errs v where
      r: "api E tr req = ReplyJson result" and e: "js_get result ''errors'' = Inr errs"
      and t: "\<not> truthy errs" and v: "createTemplate E token input tr = (Inr v, tr @ [req])"
      by (auto split: http_reply.splits sum.splits if_splits)
    have "\<not> error_reply E tr req"
      using r e t truthy_error_array by (auto simp: error_reply_def)
    then show ?thesis using created c v by blast
  qed
qed

text \<open>
  The run of every part of the orchestrator stops at the first create call that is answered
  with an error array.
\<close>

lemma stops_at_errorI:
  assumes "\<And>tr. \<exists>new. snd (m tr) = tr @ new \<and>
        (\<forall>i<length new. error_reply E (tr @ take i new) (new ! i) \<longrightarrow>
           Suc i = length new \<and> fst (m tr) = Inl (Error ''Template creation failed''))"
  shows "stops_at_error E m"
  using assms unfolding stops_at_error_def by blast

lemma stops_silent:
  assumes "\<And>tr. snd (m tr) = tr"
  shows "stops_at_error E m"
proof (rule stops_at_errorI)
  fix tr
  have "snd (m tr) = tr @ []" using assms by simp
  then show "\<exists>new. snd (m tr) = tr @ new \<and>
        (\<forall>i<length new. error_reply E (tr @ take i new) (new ! i) \<longrightarrow>
           Suc i = length new \<and> fst (m tr) = Inl (Error ''Template creation failed''))"
    by (intro exI [of _ "[]"]) simp
qed

lemma stops_pret: "stops_at_error E (pret x)"
  by (rule stops_silent) (simp add: pret_def)

lemma stops_pthrow: "stops_at_error E (pthrow e)"
  by (rule stops_silent) (simp add: pthrow_def)

lemma stops_plift: "stops_at_error E (plift r)"
  by (rule stops_silent) (simp add: plift_def)

lemma stops_console_log: "stops_at_error E (console_log r)"
  by (rule stops_silent) (cases r; simp add: console_log_def pthrow_def pret_def)

lemma stops_at_error_spec:
  assumes "stops_at_error E m"
  shows "\<exists>new. snd (m tr) = tr @ new \<and>
        (\<forall>i<length new. error_reply E (tr @ take i new) (new ! i) \<longrightarrow>
           Suc i = length new \<and> fst (m tr) = Inl (Error ''Template creation failed''))"
  using assms unfolding stops_at_error_def by (rule spec)

lemma stops_pbind:
  assumes m: "stops_at_error E m" and f: "\<And>x. stops_at_error E (f x)"
  shows "stops_at_error E (pbind m f)"
proof (rule stops_at_errorI)
  fix tr
  let ?P = "\<lambda>new. snd (pbind m f tr) = tr @ new \<and>
        (\<forall>i<length new. error_reply E (tr @ take i new) (new ! i) \<longrightarrow>
           Suc i = length new \<and> fst (pbind m f tr) = Inl (Error ''Template creation failed''))"
  from stops_at_error_spec [OF m, of tr] obtain new1 where s1: "snd (m tr) = tr @ new1"
    and e1: "\<forall>i<length new1. error_reply E (tr @ take i new1) (new1 ! i) \<longrightarrow>
           Suc i = length new1 \<and> fst (m tr) = Inl (Error ''Template creation failed'')"
    by (elim exE conjE)
  show "\<exists>new. ?P new"
  proof (cases "fst (m tr)")
    case (Inl e)
    then have "pbind m f tr = (Inl e, tr @ new1)"
      using s1 by (cases "m tr") (simp add: pbind_def)
    then have "?P new1" using e1 Inl by simp
    then show ?thesis by (rule exI [of ?P new1])
  next
    case (Inr x)
    then have run: "pbind m f tr = f x (tr @ new1)"
      using s1 by (cases "m tr") (simp add: pbind_def)
    from stops_at_error_spec [OF f, of x "tr @ new1"]
    obtain new2 where s2: "snd (f x (tr @ new1)) = (tr @ new1) @ new2"
      and e2: "\<forall>j<length new2. error_reply E ((tr @ new1) @ take j new2) (new2 ! j) \<longrightarrow>
           Suc j = length new2 \<and> fst (f x (tr @ new1)) = Inl (Error ''Template creation failed'')"
      by (elim exE conjE)
    have "?P (new1 @ new2)"
    proof (intro conjI allI impI)
      show "snd (pbind m f tr) = tr @ new1 @ new2" using run s2 by simp
    next
      fix i assume i: "i < length (new1 @ new2)"
        and r: "error_reply E (tr @ take i (new1 @ new2)) ((new1 @ new2) ! i)"
      have ge: "length new1 \<le> i"
      proof (rule ccontr)
        assume "\<not> length new1 \<le> i"
        then have lt: "i < length new1" by simp
        with r have "error_reply E (tr @ take i new1) (new1 ! i)" by (simp add: nth_append)
        with e1 lt have "fst (m tr) = Inl (Error ''Template creation failed'')" by blast
        with Inr show False by simp
      qed
      define j where "j = i - length new1"
      have j: "j < length new2" using i ge by (simp add: j_def)
      have ij: "i = length new1 + j" using ge by (simp add: j_def)
      have "error_reply E ((tr @ new1) @ take j new2) (new2 ! j)"
        using r by (simp add: ij nth_append)
      with e2 j have "Suc j = length new2 \<and> fst (f x (tr @ new1)) = Inl (Error ''Template creation failed'')"
        by blast
      with run show "Suc i = length (new1 @ new2)" and
        "fst (pbind m f tr) = Inl (Error ''Template creation failed'')"
        by (simp_all add: ij)
    qed
    then show ?thesis by (rule exI [of ?P "new1 @ new2"])
  qed
qed

lemma stops_for_each:
  assumes "\<And>x. stops_at_error E (body x)"
  shows "stops_at_error E (for_each xs body)"
proof (induction xs)
  case Nil
  show ?case by (simp add: stops_pret)
next
  case (Cons x xs)
  have "stops_at_error E (pbind (body x) (\<lambda>u. for_each xs body))"
    by (rule stops_pbind) (rule assms, rule Cons.IH)
  then show ?case by simp
qed

lemma stops_single:
  assumes "\<And>tr. \<exists>req. snd (m tr) = tr @ [req] \<and>
     (error_reply E tr req \<longrightarrow> fst (m tr) = Inl (Error ''Template creation failed''))"
  shows "stops_at_error E m"
proof (rule stops_at_errorI)
  fix tr
  let ?P = "\<lambda>new. snd (m tr) = tr @ new \<and>
        (\<forall>i<length new. error_reply E (tr @ take i new) (new ! i) \<longrightarrow>
           Suc i = length new \<and> fst (m tr) = Inl (Error ''Template creation failed''))"
  from assms [of tr] obtain req where "snd (m tr) = tr @ [req]"
    "error_reply E tr req \<longrightarrow> fst (m tr) = Inl (Error ''Template creation failed'')"
    by (elim exE conjE)
  then have "?P [req]" by simp
  then show "\<exists>new. ?P new" by (rule exI [of ?P "[req]"])
qed

lemma stops_authenticateUser: "stops_at_error E (authenticateUser E u p)"
proof (rule stops_single)
  fix tr
  from authenticateUser_cases [of E u p tr]
  have "snd (authenticateUser E u p tr) = tr @ [AuthenticateUser u p]" by auto
  moreover have "\<not> error_reply E tr (AuthenticateUser u p)"
    by (simp add: error_reply_def is_create_def)
  ultimately show "\<exists>req. snd (authenticateUser E u p tr) = tr @ [req] \<and>
     (error_reply E tr req \<longrightarrow>
        fst (authenticateUser E u p tr) = Inl (Error ''Template creation failed''))"
    by blast
qed

lemma stops_createTemplate: "stops_at_error E (createTemplate E token input)"
proof (rule stops_at_errorI)
  fix tr
  let ?m = "createTemplate E token input"
  let ?P = "\<lambda>new. snd (?m tr) = tr @ new \<and>
        (\<forall>i<length new. error_reply E (tr @ take i new) (new ! i) \<longrightarrow>
           Suc i = length new \<and> fst (?m tr) = Inl (Error ''Template creation failed''))"
  show "\<exists>new. ?P new"
  proof (cases rule: createTemplate_cases [of E token input tr])
    case silent
    then have "?P []" by simp
    then show ?thesis by (rule exI [of ?P "[]"])
  next
    case (failed req)
    then have "?P [req]" by simp
    then show ?thesis by (rule exI [of ?P "[req]"])
  next
    case (created req v)
    then have "?P [req]" by simp
    then show ?thesis by (rule exI [of ?P "[req]"])
  qed
qed

lemma stops_create_for: "stops_at_error E (create_for E a c subject content)"
  unfolding create_for_def
  by (intro stops_pbind stops_plift stops_createTemplate)

lemma stops_replay_communication: "stops_at_error E (replay_communication E a c)"
  unfolding replay_communication_def
  by (intro stops_pbind stops_console_log stops_create_for)

lemma stops_replay_file: "stops_at_error E (replay_file E a file)"
  unfolding replay_file_def
  by (intro stops_pbind stops_plift stops_replay_communication)

lemma stops_replay_template_type: "stops_at_error E (replay_template_type E a t type)"
  unfolding replay_template_type_def
  by (intro stops_pbind stops_plift stops_console_log stops_createTemplate stops_pret)

lemma stops_replay_templates: "stops_at_error E (replay_templates E a ts)"
  unfolding replay_templates_def replay_template_def
  by (intro stops_pbind stops_plift stops_console_log stops_for_each stops_replay_template_type)

lemma stops_migrator: "stops_at_error E (migrator E)"
  unfolding migrator_def
  by (intro stops_pbind stops_plift stops_console_log stops_for_each stops_authenticateUser
      stops_replay_templates stops_replay_file)

text \<open>
  Claim C6. Take any replay run and any request of it that is a create-template call whose
  reply carries an error array. Then the Replay Client has thrown \<^verbatim>\<open>Template creation failed\<close>
  for it, and that request is the last one the run posts: the call is not repeated, and no
  artifact after it is replayed.
\<close>

theorem error_reply_aborts_queue:
  assumes run: "migrator E [] = (res, tr)"
    and i: "i < length tr"
    and err: "error_reply E (take i tr) (tr ! i)"
  shows "Suc i = length tr \<and> res = Inl (Error ''Template creation failed'')"
proof -
  from stops_at_error_spec [OF stops_migrator, of E "[]"] obtain new where
    n: "snd (migrator E []) = [] @ new" and
    e: "\<forall>i<length new. error_reply E ([] @ take i new) (new ! i) \<longrightarrow>
           Suc i = length new \<and> fst (migrator E []) = Inl (Error ''Template creation failed'')"
    by (elim exE conjE)
  from n run have "new = tr" by simp
  with e i err run show ?thesis by simp
qed

lemma rejected_run_eval:
  "migrator rejected_run [] =
     (Inl (Error ''Template creation failed''),
      [AuthenticateUser (Some ''u'') (Some ''p''),
       CreateTemplate ''Bearer tok'' ''A - issuance'' (JSON_stringify (JStr ''x'')) (JStr ''T''),
       CreateTemplate ''Bearer tok'' ''C - N - S1'' (JSON_stringify (JStr ''i'')) (JStr ''T'')])"
  by (simp add: run_defs rejected_run_def rejecting_api_def accepting_api_def template_A_def
      communication_1_def)

theorem error_reply_aborts_queue_witness:
  "migrator rejected_run [] =
     (Inl (Error ''Template creation failed''),
      [AuthenticateUser (Some ''u'') (Some ''p''),
       CreateTemplate ''Bearer tok'' ''A - issuance'' (JSON_stringify (JStr ''x'')) (JStr ''T''),
       CreateTemplate ''Bearer tok'' ''C - N - S1'' (JSON_stringify (JStr ''i'')) (JStr ''T'')])
   \<and> error_reply rejected_run
       [AuthenticateUser (Some ''u'') (Some ''p''),
        CreateTemplate ''Bearer tok'' ''A - issuance'' (JSON_stringify (JStr ''x'')) (JStr ''T'')]
       (CreateTemplate ''Bearer tok'' ''C - N - S1'' (JSON_stringify (JStr ''i'')) (JStr ''T''))
   \<and> Suc 2 = length
       [AuthenticateUser (Some ''u'') (Some ''p''),
        CreateTemplate ''Bearer tok'' ''A - issuance'' (JSON_stringify (JStr ''x'')) (JStr ''T''),
        CreateTemplate ''Bearer tok'' ''C - N - S1'' (JSON_stringify (JStr ''i'')) (JStr ''T'')]"
proof -
  let ?tr = "[AuthenticateUser (Some ''u'') (Some ''p''),
       CreateTemplate ''Bearer tok'' ''A - issuance'' (JSON_stringify (JStr ''x'')) (JStr ''T''),
       CreateTemplate ''Bearer tok'' ''C - N - S1'' (JSON_stringify (JStr ''i'')) (JStr ''T'')]"
  have i: "2 < length ?tr" by simp
  have err: "error_reply rejected_run (take 2 ?tr) (?tr ! 2)"
    by (simp add: error_reply_def is_create_def has_error_array_def rejected_run_def
        rejecting_api_def)
  from error_reply_aborts_queue [OF rejected_run_eval i err] rejected_run_eval err
  show ?thesis by simp
qed

subsection \<open>Communications replay reads the first element only\<close>



























subsection \<open>Template replay creates the first template only\<close>

text \<open>Whatever \<^verbatim>\<open>templates.json\<close> holds, the template loop posts at most one request.\<close>

lemma replay_templates_posts_at_most_once:
  "\<exists>new. snd (replay_templates E a templates tr) = tr @ new \<and> length new \<le> 1"
proof -
  have ct: "\<exists>new. snd (createTemplate E token input t) = t @ new \<and> length new \<le> 1" for token input t
    by (cases rule: createTemplate_cases [of E token input t]) simp_all
  have step: "\<exists>new. snd (replay_template_type E a c type t) = t @ new \<and> length new \<le> 1" for c type t
  proof (cases "ebind (field_string c ''templateName'') (\<lambda>name.
       ebind (ebind (js_get c type) (\<lambda>t. js_get t ''body'')) (\<lambda>body. Inr (name, body)))")
    case (Inl e)
    then have "snd (replay_template_type E a c type t) = t @ []"
      by (auto simp: replay_template_type_def console_log_def pbind_def plift_def pret_def
          pthrow_def ebind_def split: sum.splits)
    then show ?thesis by (intro exI [of _ "[]"]) simp
  next
    case (Inr nb)
    obtain name body where nb: "nb = (name, body)" by (cases nb)
    let ?input = "\<lparr>templateName = name @ '' - '' @ type, templateBody = JSON_stringify body,
        tenantId = tenant_id a\<rparr>"
    from Inr nb have "snd (replay_template_type E a c type t)
        = snd (createTemplate E (accessToken a) ?input t)"
      by (auto simp: replay_template_type_def console_log_def pbind_def plift_def pret_def
          pthrow_def ebind_def split: sum.splits prod.splits)
    with ct [of "accessToken a" ?input t] show ?thesis by simp
  qed
  show ?thesis
  proof (cases "at0 templates")
    case (Inl e)
    then have "snd (replay_templates E a templates tr) = tr @ []"
      by (simp add: replay_templates_def pthrow_def)
    then show ?thesis by (intro exI [of _ "[]"]) simp
  next
    case (Inr c)
    show ?thesis
    proof (cases "field_string c ''templateName''")
      case (Inl e)
      with Inr have "snd (replay_templates E a templates tr) = tr @ []"
        by (simp add: replay_templates_def replay_template_def console_log_def pthrow_def
            pbind_def plift_def)
      then show ?thesis by (intro exI [of _ "[]"]) simp
    next
      case (Inr name)
      with \<open>at0 templates = Inr c\<close>
      have "snd (replay_templates E a templates tr) = snd (replay_template_type E a c ''issuance'' tr)"
        by (cases "replay_template_type E a c ''issuance'' tr")
          (auto simp: replay_templates_def replay_template_def console_log_def templateTypes_def
            pbind_def pret_def plift_def split: sum.splits)
      with step [of c "''issuance''" tr] show ?thesis by simp
    qed
  qed
qed

text \<open>
  Claim C1 (the code departs from it). An export of two well-formed templates, replayed
  against a destination that accepts everything: the run completes, and the only
  create-template request it posts is the issuance template of the first record. The second
  record, which the claim says yields one call of its own, yields none.
\<close>

theorem second_template_is_never_replayed:
  "migrator two_template_run [] =
     (Inr (),
      [AuthenticateUser (Some ''u'') (Some ''p''),
       CreateTemplate ''Bearer tok'' ''A - issuance'' (JSON_stringify (JStr ''x'')) (JStr ''T'')])"
  by (simp add: run_defs two_template_run_def accepting_api_def template_A_def template_B_def)

subsection \<open>Login resolves whatever the second factor does\<close>

lemma perform_apply:
  "perform B e w = (case fails B (trace w) e of Some err \<Rightarrow> Inl err | None \<Rightarrow> Inr (),
                    w\<lparr>trace := trace w @ [e]\<rparr>)"
  by (simp add: perform_def)

lemma handle2FA_resolves:
  "handle2FA B w = (Inr (), w\<lparr>trace := trace w @ second_factor_events B (trace w)\<rparr>)"
  by (simp add: handle2FA_def pcatch_def pbind_def perform_def pret_def second_factor_events_def
      split: option.splits)

lemma authenticate_shape:
  assumes "authenticate = (\<lambda>w. pcatch
       (pbind credentials (\<lambda>u.
        pbind (pcatch (handle2FA B) (\<lambda>error. pret ())) (\<lambda>u.
        pret True)))
       (\<lambda>error. pthrow (Rejected (JBool False))) w)"
  shows "authenticate w =
     (case credentials w of
        (Inl e, w1) \<Rightarrow> (Inl (Rejected (JBool False)), w1)
      | (Inr u, w1) \<Rightarrow> (Inr True, w1\<lparr>trace := trace w1 @ second_factor_events B (trace w1)\<rparr>))"
  by (simp add: assms pcatch_def pbind_def pret_def pthrow_def handle2FA_resolves
      split: prod.splits sum.splits)

text \<open>
  Claim C4. In both \<^verbatim>\<open>MSLogin\<close> classes, \<open>authenticate\<close> is decided by the username and
  password steps alone. When they complete, it resolves to \<^verbatim>\<open>true\<close> after the second-factor
  wait, whether that wait completed or timed out: the timeout is caught inside \<open>handle2FA\<close>
  and never propagated. When one of them throws, it rejects (with \<^verbatim>\<open>false\<close>), and the second
  factor is not waited for.
\<close>

theorem authenticate_resolves_true_past_second_factor:
  "msAuth_authenticate B w =
     (case enterCredentials B w of
        (Inl e, w1) \<Rightarrow> (Inl (Rejected (JBool False)), w1)
      | (Inr u, w1) \<Rightarrow> (Inr True, w1\<lparr>trace := trace w1 @ second_factor_events B (trace w1)\<rparr>))
   \<and> auth_authenticate B w =
     (case auth_enterCredentials B w of
        (Inl e, w1) \<Rightarrow> (Inl (Rejected (JBool False)), w1)
      | (Inr u, w1) \<Rightarrow> (Inr True, w1\<lparr>trace := trace w1 @ second_factor_events B (trace w1)\<rparr>))"
proof
  show "msAuth_authenticate B w =
     (case enterCredentials B w of
        (Inl e, w1) \<Rightarrow> (Inl (Rejected (JBool False)), w1)
      | (Inr u, w1) \<Rightarrow> (Inr True, w1\<lparr>trace := trace w1 @ second_factor_events B (trace w1)\<rparr>))"
    by (rule authenticate_shape) (simp add: msAuth_authenticate_def)
  show "auth_authenticate B w =
     (case auth_enterCredentials B w of
        (Inl e, w1) \<Rightarrow> (Inl (Rejected (JBool False)), w1)
      | (Inr u, w1) \<Rightarrow> (Inr True, w1\<lparr>trace := trace w1 @ second_factor_events B (trace w1)\<rparr>))"
    by (rule authenticate_shape) (simp add: auth_authenticate_def)
qed

lemma no_second_factor_credentials:
  "enterCredentials no_second_factor empty_world =
    (Inr (), empty_world\<lparr>trace :=
       [IsVisible ''text=Pick an account'' 5000,
        Fill sel_loginfmt (Some ''alice@example.com''), Click sel_submit,
        WaitForSelector sel_passwd 5000,
        Fill sel_passwd (Some ''pw''), Click sel_submit]\<rparr>)"
  by (simp add: enterCredentials_def isAccountFound_def isVisible_def perform_def pbind_def
      no_second_factor_def empty_world_def)

theorem authenticate_resolves_true_past_second_factor_witness:
  "fails no_second_factor
      [IsVisible ''text=Pick an account'' 5000,
        Fill sel_loginfmt (Some ''alice@example.com''), Click sel_submit,
        WaitForSelector sel_passwd 5000,
        Fill sel_passwd (Some ''pw''), Click sel_submit]
      (WaitForURL second_factor_url 60000) = Some TimeoutError
   \<and> msAuth_authenticate no_second_factor empty_world =
    (Inr True, empty_world\<lparr>trace :=
       [IsVisible ''text=Pick an account'' 5000,
        Fill sel_loginfmt (Some ''alice@example.com''), Click sel_submit,
        WaitForSelector sel_passwd 5000,
        Fill sel_passwd (Some ''pw''), Click sel_submit,
        WaitForURL second_factor_url 60000]\<rparr>)"
  using authenticate_resolves_true_past_second_factor [of no_second_factor empty_world]
  by (simp add: no_second_factor_credentials second_factor_events_def)
    (simp add: no_second_factor_def empty_world_def)

subsection \<open>Steps of a scraping run\<close>

lemma pbind_emit: "pbind (emit e) f w = f () (w\<lparr>trace := trace w @ [e]\<rparr>)"
  by (simp add: pbind_def emit_def)

lemma pbind_perform:
  "pbind (perform B e) f w =
     (case fails B (trace w) e of
        Some err \<Rightarrow> (Inl err, w\<lparr>trace := trace w @ [e]\<rparr>)
      | None \<Rightarrow> f () (w\<lparr>trace := trace w @ [e]\<rparr>))"
  by (simp add: pbind_def perform_def split: option.splits)

lemma pbind_plift:
  "pbind (plift r) f w = (case r of Inl e \<Rightarrow> (Inl e, w) | Inr x \<Rightarrow> f x w)"
  by (simp add: pbind_def plift_def split: sum.splits)

lemma pbind_console_log:
  "pbind (console_log r) f w = (case r of Inl e \<Rightarrow> (Inl e, w) | Inr x \<Rightarrow> f () w)"
  by (simp add: pbind_def console_log_def plift_def pret_def split: sum.splits)

lemma pbind_await_response:
  "pbind (await_response B p) f w =
     (case awaited_response B (trace w) (AwaitResponse p) of
        TimedOut \<Rightarrow> (Inl TimeoutError, w\<lparr>trace := trace w @ [AwaitResponse p]\<rparr>)
      | Falsy \<Rightarrow> f None (w\<lparr>trace := trace w @ [AwaitResponse p]\<rparr>)
      | Response body \<Rightarrow> f (Some body) (w\<lparr>trace := trace w @ [AwaitResponse p]\<rparr>))"
  by (simp add: pbind_def await_response_def split: awaited.splits)

lemma pret_apply: "pret x w = (Inr x, w)"
  by (simp add: pret_def)

lemma pthrow_apply: "pthrow e w = (Inl e, w)"
  by (simp add: pthrow_def)

lemma pbind_Pair_Inr: "pbind (Pair (Inr x)) f = f x"
  by (simp add: pbind_def)

lemma pbind_Pair_Inl: "pbind (Pair (Inl e)) f = Pair (Inl e)"
  by (simp add: pbind_def fun_eq_iff)

lemmas step_laws = pbind_emit pbind_perform pbind_plift pbind_console_log pbind_await_response
  pret_apply pthrow_apply pbind_Pair_Inr pbind_Pair_Inl

lemma collect_response:
  "pbind (plift (ebind (json_of body) (\<lambda>b. js_get b ''value''))) (\<lambda>data.
     pbind (console_log (field_string data ''length'')) (\<lambda>u. pret data)) w
   = (collection_of body, w)"
  by (simp add: step_laws collection_of_def ebind_def split: sum.splits)

lemma collection_of_array:
  "js_get b ''value'' = Inr (JArr xs) \<Longrightarrow> collection_of (Some b) = Inr (JArr xs)"
  by (simp add: collection_of_def json_of_def ebind_def field_string_def)

lemma scrapeCases_goto_throws:
  assumes "fails B (trace w @ [WaitForResponse CasesResponse 45000]) (Goto (cases_url B)) = Some err"
  shows "scrapeCases B w =
     (Inl err, w\<lparr>trace := trace w @ [WaitForResponse CasesResponse 45000, Goto (cases_url B)]\<rparr>)"
  using assms by (simp add: scrapeCases_def step_laws)

lemma scrapeCases_timeout:
  assumes "fails B (trace w @ [WaitForResponse CasesResponse 45000]) (Goto (cases_url B)) = None"
    and "awaited_response B (trace w @ [WaitForResponse CasesResponse 45000, Goto (cases_url B)])
           (AwaitResponse CasesResponse) = TimedOut"
  shows "scrapeCases B w =
     (Inl TimeoutError, w\<lparr>trace := trace w @ [WaitForResponse CasesResponse 45000,
        Goto (cases_url B), AwaitResponse CasesResponse]\<rparr>)"
  using assms by (simp add: scrapeCases_def step_laws)

lemma scrapeCases_response:
  assumes "fails B (trace w @ [WaitForResponse CasesResponse 45000]) (Goto (cases_url B)) = None"
    and "awaited_response B (trace w @ [WaitForResponse CasesResponse 45000, Goto (cases_url B)])
           (AwaitResponse CasesResponse) = Response body"
  shows "scrapeCases B w =
     (collection_of body, w\<lparr>trace := trace w @ [WaitForResponse CasesResponse 45000,
        Goto (cases_url B), AwaitResponse CasesResponse]\<rparr>)"
  using assms
  by (simp add: scrapeCases_def pbind_emit pbind_perform pbind_await_response collect_response)

lemma scrapeCases_falsy:
  assumes "fails B (trace w @ [WaitForResponse CasesResponse 45000]) (Goto (cases_url B)) = None"
    and "awaited_response B (trace w @ [WaitForResponse CasesResponse 45000, Goto (cases_url B)])
           (AwaitResponse CasesResponse) = Falsy"
  shows "scrapeCases B w =
     (Inr (JArr []), w\<lparr>trace := trace w @ [WaitForResponse CasesResponse 45000,
        Goto (cases_url B), AwaitResponse CasesResponse]\<rparr>)"
  using assms by (simp add: scrapeCases_def step_laws)

lemma scrapeCommunications_returns:
  "communications_try B case_id case_name w = (Inr v, w1) \<Longrightarrow>
   scrapeCommunications B case_id case_name w = (Inr v, w1)"
  by (simp add: scrapeCommunications_def pcatch_def)

lemma pbind_logError:
  "pbind (logError B msg err) f w =
     f () (logged B \<lparr>timestamp = now B (trace w), message = msg, stack = err\<rparr> w)"
  by (simp add: pbind_def logError_def logged_def Let_def split: option.splits)

lemma scrapeCommunications_catches:
  assumes "communications_try B case_id case_name w = (Inl err, w1)"
    and "js_to_string case_name = Inr n"
  shows "scrapeCommunications B case_id case_name w =
     (Inr (JArr []), logged B (scrape_entry B (trace w1) n err) w1)"
  using assms
  by (simp add: scrapeCommunications_def pcatch_def communications_catch_def
      pbind_plift pbind_logError pret_apply scrape_entry_def)

lemma scrapeCommunications_handler_throws:
  assumes "communications_try B case_id case_name w = (Inl err, w1)"
    and "js_to_string case_name = Inl e"
  shows "scrapeCommunications B case_id case_name w = (Inl e, w1)"
  using assms
  by (simp add: scrapeCommunications_def pcatch_def communications_catch_def pbind_plift
      pthrow_apply)

lemma communications_try_timeout:
  assumes "js_to_string case_id = Inr i" "js_to_string case_name = Inr n"
    and "fails B (trace w @ [WaitForResponse CommunicationsResponse 45000])
           (Goto (communications_url B i n)) = None"
    and "awaited_response B (trace w @ [WaitForResponse CommunicationsResponse 45000,
           Goto (communications_url B i n)]) (AwaitResponse CommunicationsResponse) = TimedOut"
  shows "communications_try B case_id case_name w =
     (Inl TimeoutError, w\<lparr>trace := trace w @ [WaitForResponse CommunicationsResponse 45000,
        Goto (communications_url B i n), AwaitResponse CommunicationsResponse]\<rparr>)"
  using assms by (simp add: communications_try_def communications_goto_def step_laws)

lemma communications_try_response:
  assumes "js_to_string case_id = Inr i" "js_to_string case_name = Inr n"
    and "fails B (trace w @ [WaitForResponse CommunicationsResponse 45000])
           (Goto (communications_url B i n)) = None"
    and "awaited_response B (trace w @ [WaitForResponse CommunicationsResponse 45000,
           Goto (communications_url B i n)]) (AwaitResponse CommunicationsResponse) = Response body"
  shows "communications_try B case_id case_name w =
     (collection_of body, w\<lparr>trace := trace w @ [WaitForResponse CommunicationsResponse 45000,
        Goto (communications_url B i n), AwaitResponse CommunicationsResponse]\<rparr>)"
proof -
  have g: "pbind (communications_goto B case_id case_name) f w' =
      pbind (perform B (Goto (communications_url B i n))) f w'" for f w'
    using assms(1,2) by (simp add: communications_goto_def pbind_def plift_def)
  show ?thesis
    using assms(3,4)
    by (simp add: communications_try_def g pbind_emit pbind_perform pbind_await_response
        collect_response)
qed

subsection \<open>The row loop of the template scraper\<close>

lemma pbind_innerText:
  "pbind (innerText B i) f w =
     (case fails B (trace w) (RowInnerText i) of
        Some err \<Rightarrow> (Inl err, w\<lparr>trace := trace w @ [RowInnerText i]\<rparr>)
      | None \<Rightarrow> f (inner_text B (trace w) (RowInnerText i)) (w\<lparr>trace := trace w @ [RowInnerText i]\<rparr>))"
  by (simp add: pbind_def innerText_def split: option.splits)

lemma pbind_all_rows:
  "pbind (all_rows B) f w =
     (case fails B (trace w) (AllRows sel_row) of
        Some err \<Rightarrow> (Inl err, w\<lparr>trace := trace w @ [AllRows sel_row]\<rparr>)
      | None \<Rightarrow> f [0 ..< row_count B (trace w) (AllRows sel_row)]
                  (w\<lparr>trace := trace w @ [AllRows sel_row]\<rparr>))"
  by (simp add: pbind_def all_rows_def split: option.splits)

lemma scrape_row_response:
  assumes "fails B (trace w) (RowInnerText i) = None"
    and "fails B (trace w @ [RowInnerText i]) (RowClick i) = None"
    and "fails B (trace w @ [RowInnerText i, RowClick i, WaitForResponse TemplateResponse 15000])
           (Click sel_edit) = None"
    and "awaited_response B (trace w @ [RowInnerText i, RowClick i,
           WaitForResponse TemplateResponse 15000, Click sel_edit])
           (AwaitResponse TemplateResponse) = Response (Some body)"
    and "fails B (trace w @ [RowInnerText i, RowClick i, WaitForResponse TemplateResponse 15000,
           Click sel_edit, AwaitResponse TemplateResponse]) (Click sel_cancel) = None"
  shows "scrape_row B i templates w =
     (Inr (templates @ [body]), w\<lparr>trace := trace w @ row_cycle i\<rparr>)"
  using assms
  by (simp add: scrape_row_def row_cycle_def pbind_innerText step_laws json_of_def)

lemma scrape_row_timeout:
  assumes "fails B (trace w) (RowInnerText i) = None"
    and "fails B (trace w @ [RowInnerText i]) (RowClick i) = None"
    and "fails B (trace w @ [RowInnerText i, RowClick i, WaitForResponse TemplateResponse 15000])
           (Click sel_edit) = None"
    and "awaited_response B (trace w @ [RowInnerText i, RowClick i,
           WaitForResponse TemplateResponse 15000, Click sel_edit])
           (AwaitResponse TemplateResponse) = TimedOut"
  shows "scrape_row B i templates w =
     (Inl TimeoutError, w\<lparr>trace := trace w @ [RowInnerText i, RowClick i,
        WaitForResponse TemplateResponse 15000, Click sel_edit, AwaitResponse TemplateResponse]\<rparr>)"
  using assms
  by (simp add: scrape_row_def pbind_innerText pbind_emit pbind_perform pbind_await_response)

lemma sequential_row_cycle: "sequential False (row_cycle i @ es) = sequential False es"
  by (simp add: row_cycle_def)

lemma sequential_cycles: "sequential False (concat (map row_cycle rows))"
  by (induction rows) (simp_all add: sequential_row_cycle)

lemma row_loop:
  assumes ui: "\<And>h i. fails B h (RowInnerText i) = None \<and> fails B h (RowClick i) = None"
    and buttons: "\<And>h. fails B h (Click sel_edit) = None \<and> fails B h (Click sel_cancel) = None"
    and resolves: "\<And>h. \<exists>body. awaited_response B h (AwaitResponse TemplateResponse) = Response (Some body)"
  shows "\<exists>ts. for_each_acc rows (scrape_row B) templates w =
           (Inr ts, w\<lparr>trace := trace w @ concat (map row_cycle rows)\<rparr>)
         \<and> length ts = length templates + length rows"
proof (induction rows arbitrary: templates w)
  case Nil
  show ?case by (simp add: pret_def)
next
  case (Cons i rows)
  from resolves obtain body where
    "awaited_response B (trace w @ [RowInnerText i, RowClick i,
           WaitForResponse TemplateResponse 15000, Click sel_edit])
           (AwaitResponse TemplateResponse) = Response (Some body)"
    by blast
  then have row: "scrape_row B i templates w =
     (Inr (templates @ [body]), w\<lparr>trace := trace w @ row_cycle i\<rparr>)"
    by (intro scrape_row_response) (simp_all add: ui buttons)
  from Cons.IH [of "templates @ [body]" "w\<lparr>trace := trace w @ row_cycle i\<rparr>"]
  obtain ts where
    rest: "for_each_acc rows (scrape_row B) (templates @ [body]) (w\<lparr>trace := trace w @ row_cycle i\<rparr>) =
       (Inr ts, w\<lparr>trace := trace w @ row_cycle i @ concat (map row_cycle rows)\<rparr>)"
    and len: "length ts = length (templates @ [body]) + length rows"
    by auto
  have "for_each_acc (i # rows) (scrape_row B) templates w =
       (Inr ts, w\<lparr>trace := trace w @ concat (map row_cycle (i # rows))\<rparr>)"
    using row rest by (simp add: pbind_def)
  with len show ?case by simp
qed

text \<open>
  Let the list view show \<open>n\<close> rows, let the page calls of the scraper complete, and let
  every detail response resolve before its timeout, with a JSON body. Then \<open>scrapeTemplates\<close>
  returns \<open>n\<close> entries, and what it has done is exactly \<open>n\<close> open, capture, cancel cycles,
  row after row, with never more than one detail request in flight.
\<close>

lemma rows_scraped_one_by_one_when_calls_complete:
  assumes page: "\<forall>h. fails B h (AllRows sel_row) = None \<and> fails B h (Click sel_edit) = None
                    \<and> fails B h (Click sel_cancel) = None"
    and rows: "\<forall>h i. fails B h (RowInnerText i) = None \<and> fails B h (RowClick i) = None"
    and resolves: "\<forall>h. \<exists>body. awaited_response B h (AwaitResponse TemplateResponse) = Response (Some body)"
    and n: "row_count B (trace w) (AllRows sel_row) = n"
  shows "\<exists>ts. scrapeTemplates B w =
           (Inr ts, w\<lparr>trace := trace w @ AllRows sel_row # concat (map row_cycle [0 ..< n])\<rparr>)
         \<and> length ts = n
         \<and> sequential False (concat (map row_cycle [0 ..< n]))"
proof -
  let ?w = "w\<lparr>trace := trace w @ [AllRows sel_row]\<rparr>"
  from row_loop [of B "[0 ..< n]" "[]" ?w] page rows resolves
  obtain ts where
    loop: "for_each_acc [0 ..< n] (scrape_row B) [] ?w =
       (Inr ts, ?w\<lparr>trace := trace ?w @ concat (map row_cycle [0 ..< n])\<rparr>)"
    and len: "length ts = length ([] :: jsval list) + length [0 ..< n]"
    by blast
  have "scrapeTemplates B w =
      (Inr ts, w\<lparr>trace := trace w @ AllRows sel_row # concat (map row_cycle [0 ..< n])\<rparr>)"
    using page n loop by (simp add: scrapeTemplates_def pbind_all_rows)
  with len sequential_cycles [of "[0 ..< n]"] show ?thesis by simp
qed

text \<open>
  Claim C7 (the code departs from it). The row loop has no \<^verbatim>\<open>try\<close>: a detail response
  that does not arrive within its 15 seconds ends the whole scrape with the timeout error.
  On a list view of two rows whose first detail response times out, the scraper completes
  no cycle (the panel it opened is not dismissed), never opens the second row, and returns
  nothing: not the two cycles of the claim.
\<close>

theorem timed_out_row_ends_the_row_loop:
  "row_count stalled_list (trace empty_world) (AllRows sel_row) = 2
   \<and> scrapeTemplates stalled_list empty_world =
     (Inl TimeoutError,
      empty_world\<lparr>trace := [AllRows sel_row, RowInnerText 0, RowClick 0,
                              WaitForResponse TemplateResponse 15000, Click sel_edit,
                              AwaitResponse TemplateResponse]\<rparr>)
   \<and> trace (snd (scrapeTemplates stalled_list empty_world)) \<noteq>
       AllRows sel_row # concat (map row_cycle [0 ..< 2])"
proof -
  have a: "fails stalled_list h e = None" "awaited_response stalled_list h e = TimedOut"
    "row_count stalled_list h e = 2" for h e
    by (simp_all add: stalled_list_def unresponsive_def mock_console_def)
  have w: "trace empty_world = []" by (simp add: empty_world_def)
  have row: "scrape_row stalled_list 0 [] (empty_world\<lparr>trace := [AllRows sel_row]\<rparr>) =
     (Inl TimeoutError, empty_world\<lparr>trace := [AllRows sel_row, RowInnerText 0, RowClick 0,
        WaitForResponse TemplateResponse 15000, Click sel_edit, AwaitResponse TemplateResponse]\<rparr>)"
    using scrape_row_timeout [of stalled_list "empty_world\<lparr>trace := [AllRows sel_row]\<rparr>" 0 "[]"]
    by (simp add: a)
  have "scrapeTemplates stalled_list empty_world =
      for_each_acc [0, 1] (scrape_row stalled_list) [] (empty_world\<lparr>trace := [AllRows sel_row]\<rparr>)"
    by (simp add: scrapeTemplates_def pbind_all_rows a w upt_rec)
  also have "\<dots> = (Inl TimeoutError,
      empty_world\<lparr>trace := [AllRows sel_row, RowInnerText 0, RowClick 0,
                              WaitForResponse TemplateResponse 15000, Click sel_edit,
                              AwaitResponse TemplateResponse]\<rparr>)"
    using row by (simp add: pbind_def)
  finally have run: "scrapeTemplates stalled_list empty_world =
     (Inl TimeoutError,
      empty_world\<lparr>trace := [AllRows sel_row, RowInnerText 0, RowClick 0,
                              WaitForResponse TemplateResponse 15000, Click sel_edit,
                              AwaitResponse TemplateResponse]\<rparr>)" .
  have "length (trace (snd (scrapeTemplates stalled_list empty_world))) = 6"
    by (simp add: run)
  moreover have "length (AllRows sel_row # concat (map row_cycle [0 ..< 2])) = 13"
    by (simp add: row_cycle_def upt_rec)
  ultimately have "trace (snd (scrapeTemplates stalled_list empty_world)) \<noteq>
       AllRows sel_row # concat (map row_cycle [0 ..< 2])"
    by (metis numeral_eq_iff semiring_norm(89) num.distinct)
  with run show ?thesis by (simp add: a)
qed

subsection \<open>What the scrapers take from a response\<close>

text \<open>What the row loop returns, when it returns.\<close>

lemma scrape_row_returns:
  assumes "scrape_row B i acc w = (Inr pushed, w')"
  shows "w' = w\<lparr>trace := trace w @ row_cycle i\<rparr>
     \<and> pushed = acc @ (case awaited_response B (trace w @ [RowInnerText i, RowClick i,
             WaitForResponse TemplateResponse 15000, Click sel_edit])
           (AwaitResponse TemplateResponse) of
        Response (Some body) \<Rightarrow> [body]
      | other \<Rightarrow> [])"
  using assms
  by (simp add: scrape_row_def row_cycle_def pbind_innerText step_laws json_of_def
      split: option.splits awaited.splits)

lemma row_loop_returns:
  "for_each_acc rows (scrape_row B) acc w = (Inr ts, w') \<Longrightarrow>
   ts = acc @ detail_bodies B (trace w) rows
   \<and> w' = w\<lparr>trace := trace w @ concat (map row_cycle rows)\<rparr>"
proof (induction rows arbitrary: acc w)
  case Nil
  then show ?case by (simp add: pret_def)
next
  case (Cons i rows)
  obtain r w1 where row: "scrape_row B i acc w = (r, w1)"
    by (cases "scrape_row B i acc w")
  show ?case
  proof (cases r)
    case (Inl e)
    with row Cons.prems show ?thesis by (simp add: pbind_def)
  next
    case (Inr pushed)
    with row Cons.prems
    have rest: "for_each_acc rows (scrape_row B) pushed w1 = (Inr ts, w')"
      by (simp add: pbind_def)
    from scrape_row_returns [of B i acc w pushed w1] row Inr
    have w1: "w1 = w\<lparr>trace := trace w @ row_cycle i\<rparr>"
      and p: "pushed = acc @ (case awaited_response B (trace w @ [RowInnerText i, RowClick i,
             WaitForResponse TemplateResponse 15000, Click sel_edit])
           (AwaitResponse TemplateResponse) of
        Response (Some body) \<Rightarrow> [body]
      | other \<Rightarrow> [])"
      by simp_all
    from Cons.IH [OF rest] w1 p show ?thesis by simp
  qed
qed

lemma scrapeTemplates_returns:
  assumes "fst (scrapeTemplates B w) = Inr ts"
  shows "ts = detail_bodies B (trace w @ [AllRows sel_row])
                [0 ..< row_count B (trace w) (AllRows sel_row)]"
proof (cases "fails B (trace w) (AllRows sel_row)")
  case (Some err)
  with assms show ?thesis by (simp add: scrapeTemplates_def pbind_all_rows)
next
  case None
  let ?w = "w\<lparr>trace := trace w @ [AllRows sel_row]\<rparr>"
  let ?rows = "[0 ..< row_count B (trace w) (AllRows sel_row)]"
  obtain r w' where loop: "for_each_acc ?rows (scrape_row B) [] ?w = (r, w')"
    by (cases "for_each_acc ?rows (scrape_row B) [] ?w")
  with None assms have "r = Inr ts"
    by (simp add: scrapeTemplates_def pbind_all_rows)
  with loop row_loop_returns [of ?rows B "[]" ?w ts w'] show ?thesis by simp
qed

lemma detail_bodies_length:
  assumes "\<And>h. \<exists>body. awaited_response B h (AwaitResponse TemplateResponse) = Response (Some body)"
  shows "length (detail_bodies B h rows) = length rows"
proof (induction rows arbitrary: h)
  case Nil
  show ?case by simp
next
  case (Cons i rows)
  from assms obtain body where
    "awaited_response B (h @ [RowInnerText i, RowClick i,
             WaitForResponse TemplateResponse 15000, Click sel_edit])
           (AwaitResponse TemplateResponse) = Response (Some body)"
    by blast
  with Cons.IH show ?case by simp
qed

lemma scrapeTemplates_completes:
  assumes page: "\<forall>h. fails B h (AllRows sel_row) = None \<and> fails B h (Click sel_edit) = None
                    \<and> fails B h (Click sel_cancel) = None"
    and rows: "\<forall>h i. fails B h (RowInnerText i) = None \<and> fails B h (RowClick i) = None"
    and resolves: "\<forall>h. \<exists>body. awaited_response B h (AwaitResponse TemplateResponse) = Response (Some body)"
  shows "\<exists>ts. fst (scrapeTemplates B w) = Inr ts"
proof -
  let ?w = "w\<lparr>trace := trace w @ [AllRows sel_row]\<rparr>"
  let ?rows = "[0 ..< row_count B (trace w) (AllRows sel_row)]"
  from row_loop [of B ?rows "[]" ?w] page rows resolves
  obtain ts where
    "for_each_acc ?rows (scrape_row B) [] ?w =
       (Inr ts, ?w\<lparr>trace := trace ?w @ concat (map row_cycle ?rows)\<rparr>)"
    by blast
  with page have "fst (scrapeTemplates B w) = Inr ts"
    by (simp add: scrapeTemplates_def pbind_all_rows)
  then show ?thesis by (rule exI [of _ ts])
qed

lemma scrapeCases_value:
  assumes "fails B (trace w @ [WaitForResponse CasesResponse 45000]) (Goto (cases_url B)) = None"
    and "awaited_response B (trace w @ [WaitForResponse CasesResponse 45000, Goto (cases_url B)])
           (AwaitResponse CasesResponse) = Response (Some b)"
    and "js_get b ''value'' = Inr v"
  shows "fst (scrapeCases B w) =
     (case field_string v ''length'' of Inl e \<Rightarrow> Inl e | Inr shown \<Rightarrow> Inr v)"
  using assms(3)
  by (simp add: scrapeCases_response [OF assms(1,2)] collection_of_def json_of_def ebind_def
      split: sum.splits)

lemma scrapeCommunications_value:
  assumes "js_to_string case_id = Inr i" "js_to_string case_name = Inr n"
    and "fails B (trace w @ [WaitForResponse CommunicationsResponse 45000])
           (Goto (communications_url B i n)) = None"
    and "awaited_response B (trace w @ [WaitForResponse CommunicationsResponse 45000,
           Goto (communications_url B i n)]) (AwaitResponse CommunicationsResponse) =
         Response (Some b)"
    and "js_get b ''value'' = Inr v"
  shows "fst (scrapeCommunications B case_id case_name w) =
     (case field_string v ''length'' of Inl e \<Rightarrow> Inr (JArr []) | Inr shown \<Rightarrow> Inr v)"
proof (cases "field_string v ''length''")
  case (Inl e)
  with assms(5) have "collection_of (Some b) = Inl e"
    by (simp add: collection_of_def json_of_def ebind_def)
  with communications_try_response [OF assms(1-4)]
  have "fst (scrapeCommunications B case_id case_name w) = Inr (JArr [])"
    by (simp add: scrapeCommunications_catches [OF _ assms(2)])
  with Inl show ?thesis by simp
next
  case (Inr shown)
  with assms(5) have "collection_of (Some b) = Inr v"
    by (simp add: collection_of_def json_of_def ebind_def)
  with communications_try_response [OF assms(1-4)]
  have "fst (scrapeCommunications B case_id case_name w) = Inr v"
    by (simp add: scrapeCommunications_returns)
  with Inr show ?thesis by simp
qed

text \<open>
  Claim C8. A resolved response is parsed as JSON. From a collection response the cases and
  the communications scrapers take the \<^verbatim>\<open>value\<close> entry \<open>v\<close> of the parsed body \<open>b\<close>, whatever
  it is, and return it once its length has been printed; when \<^verbatim>\<open>v.length\<close> cannot be read
  (\<open>v\<close> is missing or \<^verbatim>\<open>null\<close>) \<open>scrapeCases\<close> throws that error and \<open>scrapeCommunications\<close>
  returns the empty list. The template scraper takes the whole parsed body: whenever
  \<open>scrapeTemplates\<close> returns, its result is exactly the list of the bodies delivered to its
  detail waits, in the order of the rows; and it does return, with one body for each row,
  when the page calls complete and each detail wait resolves with a JSON body.
\<close>

theorem scrapers_take_value_or_whole_body:
  "(fails B (trace w @ [WaitForResponse CasesResponse 45000]) (Goto (cases_url B)) = None \<longrightarrow>
    awaited_response B (trace w @ [WaitForResponse CasesResponse 45000, Goto (cases_url B)])
      (AwaitResponse CasesResponse) = Response (Some b) \<longrightarrow>
    js_get b ''value'' = Inr v \<longrightarrow>
    fst (scrapeCases B w) =
      (case field_string v ''length'' of Inl e \<Rightarrow> Inl e | Inr shown \<Rightarrow> Inr v))
   \<and> (js_to_string case_id = Inr i \<longrightarrow> js_to_string case_name = Inr n \<longrightarrow>
    fails B (trace w @ [WaitForResponse CommunicationsResponse 45000])
      (Goto (communications_url B i n)) = None \<longrightarrow>
    awaited_response B (trace w @ [WaitForResponse CommunicationsResponse 45000,
      Goto (communications_url B i n)]) (AwaitResponse CommunicationsResponse) =
        Response (Some b) \<longrightarrow>
    js_get b ''value'' = Inr v \<longrightarrow>
    fst (scrapeCommunications B case_id case_name w) =
      (case field_string v ''length'' of Inl e \<Rightarrow> Inr (JArr []) | Inr shown \<Rightarrow> Inr v))
   \<and> (fst (scrapeTemplates B w) = Inr ts \<longrightarrow>
    ts = detail_bodies B (trace w @ [AllRows sel_row])
           [0 ..< row_count B (trace w) (AllRows sel_row)])
   \<and> ((\<forall>h. fails B h (AllRows sel_row) = None \<and> fails B h (Click sel_edit) = None
             \<and> fails B h (Click sel_cancel) = None) \<longrightarrow>
    (\<forall>h r. fails B h (RowInnerText r) = None \<and> fails B h (RowClick r) = None) \<longrightarrow>
    (\<forall>h. \<exists>body. awaited_response B h (AwaitResponse TemplateResponse) = Response (Some body)) \<longrightarrow>
    fst (scrapeTemplates B w) =
      Inr (detail_bodies B (trace w @ [AllRows sel_row])
             [0 ..< row_count B (trace w) (AllRows sel_row)])
    \<and> length (detail_bodies B (trace w @ [AllRows sel_row])
             [0 ..< row_count B (trace w) (AllRows sel_row)]) =
        row_count B (trace w) (AllRows sel_row))"
proof (intro conjI impI)
  assume "fails B (trace w @ [WaitForResponse CasesResponse 45000]) (Goto (cases_url B)) = None"
    "awaited_response B (trace w @ [WaitForResponse CasesResponse 45000, Goto (cases_url B)])
      (AwaitResponse CasesResponse) = Response (Some b)"
    "js_get b ''value'' = Inr v"
  then show "fst (scrapeCases B w) =
      (case field_string v ''length'' of Inl e \<Rightarrow> Inl e | Inr shown \<Rightarrow> Inr v)"
    by (rule scrapeCases_value)
next
  assume "js_to_string case_id = Inr i" "js_to_string case_name = Inr n"
    "fails B (trace w @ [WaitForResponse CommunicationsResponse 45000])
      (Goto (communications_url B i n)) = None"
    "awaited_response B (trace w @ [WaitForResponse CommunicationsResponse 45000,
      Goto (communications_url B i n)]) (AwaitResponse CommunicationsResponse) =
        Response (Some b)"
    "js_get b ''value'' = Inr v"
  then show "fst (scrapeCommunications B case_id case_name w) =
      (case field_string v ''length'' of Inl e \<Rightarrow> Inr (JArr []) | Inr shown \<Rightarrow> Inr v)"
    by (rule scrapeCommunications_value)
next
  assume "fst (scrapeTemplates B w) = Inr ts"
  then show "ts = detail_bodies B (trace w @ [AllRows sel_row])
           [0 ..< row_count B (trace w) (AllRows sel_row)]"
    by (rule scrapeTemplates_returns)
next
  assume a: "\<forall>h. fails B h (AllRows sel_row) = None \<and> fails B h (Click sel_edit) = None
             \<and> fails B h (Click sel_cancel) = None"
    "\<forall>h r. fails B h (RowInnerText r) = None \<and> fails B h (RowClick r) = None"
    "\<forall>h. \<exists>body. awaited_response B h (AwaitResponse TemplateResponse) = Response (Some body)"
  from scrapeTemplates_completes [OF a, of w]
  obtain ts where ts: "fst (scrapeTemplates B w) = Inr ts" by (elim exE)
  from scrapeTemplates_returns [OF ts] ts
  show "fst (scrapeTemplates B w) =
      Inr (detail_bodies B (trace w @ [AllRows sel_row])
             [0 ..< row_count B (trace w) (AllRows sel_row)])"
    by simp
next
  assume "\<forall>h. \<exists>body. awaited_response B h (AwaitResponse TemplateResponse) = Response (Some body)"
  then show "length (detail_bodies B (trace w @ [AllRows sel_row])
             [0 ..< row_count B (trace w) (AllRows sel_row)]) =
        row_count B (trace w) (AllRows sel_row)"
    by (simp add: detail_bodies_length)
qed

lemma mock_console_answers:
  "fails mock_console h e = None"
  "awaited_response mock_console h (AwaitResponse CasesResponse) =
     Response (Some (JObj [(''value'', JArr [case_one])]))"
  by (simp_all add: mock_console_def)

text \<open>
  For the mocked cases response \<^verbatim>\<open>{value: [{id: "c1", displayName: "Case One"}]}\<close>,
  \<open>scrapeCases\<close> returns the one record; on the same console the communications of a case
  and the templates of the two rows come back likewise.
\<close>

theorem scrapers_take_value_or_whole_body_witness:
  "awaited_response mock_console [WaitForResponse CasesResponse 45000, Goto (cases_url mock_console)]
      (AwaitResponse CasesResponse) = Response (Some (JObj [(''value'', JArr [case_one])]))
   \<and> fst (scrapeCases mock_console empty_world) =
       Inr (JArr [JObj [(''id'', JStr ''c1''), (''displayName'', JStr ''Case One'')]])
   \<and> fst (scrapeCommunications mock_console (JStr ''c1'') (JStr ''Case One'') empty_world) =
       Inr (JArr [communication_1])
   \<and> fst (scrapeTemplates mock_console empty_world) = Inr [template_A, template_A]"
proof -
  have w: "trace empty_world = []" by (simp add: empty_world_def)
  have m: "fails mock_console h e = None"
    "awaited_response mock_console h (AwaitResponse CasesResponse) =
       Response (Some (JObj [(''value'', JArr [case_one])]))"
    "awaited_response mock_console h (AwaitResponse CommunicationsResponse) =
       Response (Some (JObj [(''value'', JArr [communication_1])]))"
    "awaited_response mock_console h (AwaitResponse TemplateResponse) =
       Response (Some template_A)"
    "row_count mock_console h e = 2" for h e
    by (simp_all add: mock_console_def)
  have "fst (scrapeCases mock_console empty_world) = Inr (JArr [case_one])"
    using scrapers_take_value_or_whole_body [of mock_console empty_world
        "JObj [(''value'', JArr [case_one])]" "JArr [case_one]", THEN conjunct1]
    by (simp add: m w field_string_def ebind_def)
  moreover
  have "fst (scrapeCommunications mock_console (JStr ''c1'') (JStr ''Case One'') empty_world) =
       Inr (JArr [communication_1])"
    using scrapers_take_value_or_whole_body [of mock_console empty_world
        "JObj [(''value'', JArr [communication_1])]" "JArr [communication_1]"
        "JStr ''c1''" "''c1''" "JStr ''Case One''" "''Case One''",
        THEN conjunct2, THEN conjunct1]
    by (simp add: m w field_string_def ebind_def)
  moreover
  have "fst (scrapeTemplates mock_console empty_world) = Inr [template_A, template_A]"
    using scrapers_take_value_or_whole_body [of mock_console empty_world,
        THEN conjunct2, THEN conjunct2, THEN conjunct2]
    by (simp add: m w upt_rec row_cycle_def)
  ultimately show ?thesis by (simp add: m case_one_def)
qed

subsection \<open>A response that never arrives\<close>

lemma unresponsive_answers:
  "fails unresponsive h e = None"
  "awaited_response unresponsive h e = TimedOut"
  "row_count unresponsive h e = 1"
  "now unresponsive h = ''2025-01-01T00:00:00.000Z''"
  by (simp_all add: unresponsive_def mock_console_def)

lemma scrapeCommunications_timeout_logged:
  assumes "js_to_string case_id = Inr i" "js_to_string case_name = Inr n"
    and "fails B (trace w @ [WaitForResponse CommunicationsResponse 45000])
           (Goto (communications_url B i n)) = None"
    and "awaited_response B (trace w @ [WaitForResponse CommunicationsResponse 45000,
           Goto (communications_url B i n)]) (AwaitResponse CommunicationsResponse) = TimedOut"
  shows "scrapeCommunications B case_id case_name w =
     (Inr (JArr []),
      logged B (scrape_entry B (trace w @ [WaitForResponse CommunicationsResponse 45000,
          Goto (communications_url B i n), AwaitResponse CommunicationsResponse]) n TimeoutError)
        (w\<lparr>trace := trace w @ [WaitForResponse CommunicationsResponse 45000,
          Goto (communications_url B i n), AwaitResponse CommunicationsResponse]\<rparr>))"
  using scrapeCommunications_catches [OF communications_try_timeout [OF assms] assms(2)]
  by simp

lemma unresponsive_communications_logged:
  "scrapeCommunications unresponsive (JStr ''c1'') (JStr ''Case One'') empty_world =
     (Inr (JArr []),
      empty_world\<lparr>trace :=
          [WaitForResponse CommunicationsResponse 45000,
           Goto (communications_url unresponsive ''c1'' ''Case One''),
           AwaitResponse CommunicationsResponse,
           AppendFile ''error_log.txt''
             (scrape_entry unresponsive
                [WaitForResponse CommunicationsResponse 45000,
                 Goto (communications_url unresponsive ''c1'' ''Case One''),
                 AwaitResponse CommunicationsResponse] ''Case One'' TimeoutError)],
        error_log :=
          [scrape_entry unresponsive
             [WaitForResponse CommunicationsResponse 45000,
              Goto (communications_url unresponsive ''c1'' ''Case One''),
              AwaitResponse CommunicationsResponse] ''Case One'' TimeoutError]\<rparr>)"
  using scrapeCommunications_timeout_logged
    [of "JStr ''c1''" "''c1''" "JStr ''Case One''" "''Case One''" unresponsive empty_world]
  by (simp add: unresponsive_answers logged_def empty_world_def)

text \<open>
  Claim C2 (the code departs from it). On a console whose responses never arrive in time,
  \<open>scrapeCommunications\<close> behaves as claimed (the two lemmas above: an empty collection, one
  entry appended to the log). \<open>scrapeCases\<close> and \<open>scrapeTemplates\<close> do not: the timeout
  leaves them as a thrown error, nothing is returned, and the error log stays as it was
  (the final world differs from the initial one in its trace only).
\<close>

theorem cases_and_templates_timeouts_propagate:
  "scrapeCases unresponsive empty_world =
     (Inl TimeoutError,
      empty_world\<lparr>trace := [WaitForResponse CasesResponse 45000, Goto (cases_url unresponsive),
                              AwaitResponse CasesResponse]\<rparr>)
   \<and> scrapeTemplates unresponsive empty_world =
     (Inl TimeoutError,
      empty_world\<lparr>trace := [AllRows sel_row, RowInnerText 0, RowClick 0,
                              WaitForResponse TemplateResponse 15000, Click sel_edit,
                              AwaitResponse TemplateResponse]\<rparr>)"
proof
  have w: "trace empty_world = []" by (simp add: empty_world_def)
  show "scrapeCases unresponsive empty_world =
     (Inl TimeoutError,
      empty_world\<lparr>trace := [WaitForResponse CasesResponse 45000, Goto (cases_url unresponsive),
                              AwaitResponse CasesResponse]\<rparr>)"
    using scrapeCases_timeout [of unresponsive empty_world]
    by (simp add: unresponsive_answers w)
  have row: "scrape_row unresponsive 0 [] (empty_world\<lparr>trace := [AllRows sel_row]\<rparr>) =
     (Inl TimeoutError, empty_world\<lparr>trace := [AllRows sel_row, RowInnerText 0, RowClick 0,
        WaitForResponse TemplateResponse 15000, Click sel_edit, AwaitResponse TemplateResponse]\<rparr>)"
    using scrape_row_timeout [of unresponsive "empty_world\<lparr>trace := [AllRows sel_row]\<rparr>" 0 "[]"]
    by (simp add: unresponsive_answers)
  show "scrapeTemplates unresponsive empty_world =
     (Inl TimeoutError,
      empty_world\<lparr>trace := [AllRows sel_row, RowInnerText 0, RowClick 0,
                              WaitForResponse TemplateResponse 15000, Click sel_edit,
                              AwaitResponse TemplateResponse]\<rparr>)"
  proof -
    have "scrapeTemplates unresponsive empty_world =
        for_each_acc [0] (scrape_row unresponsive) [] (empty_world\<lparr>trace := [AllRows sel_row]\<rparr>)"
      by (simp add: scrapeTemplates_def pbind_all_rows unresponsive_answers w)
    also have "\<dots> = (Inl TimeoutError,
      empty_world\<lparr>trace := [AllRows sel_row, RowInnerText 0, RowClick 0,
                              WaitForResponse TemplateResponse 15000, Click sel_edit,
                              AwaitResponse TemplateResponse]\<rparr>)"
      using row by (simp add: pbind_def)
    finally show ?thesis .
  qed
qed

subsection \<open>What a run preserves\<close>

lemma preservesI: "(\<And>w. R w (snd (m w))) \<Longrightarrow> preserves R m"
  by (simp add: preserves_def)

lemma preservesD: "preserves R m \<Longrightarrow> R w (snd (m w))"
  by (simp add: preserves_def)

lemma preserves_pret: "(\<And>w. R w w) \<Longrightarrow> preserves R (pret x)"
  by (simp add: preserves_def pret_def)

lemma preserves_pthrow: "(\<And>w. R w w) \<Longrightarrow> preserves R (pthrow e)"
  by (simp add: preserves_def pthrow_def)

lemma preserves_plift: "(\<And>w. R w w) \<Longrightarrow> preserves R (plift r)"
  by (simp add: preserves_def plift_def)

lemma preserves_console_log: "(\<And>w. R w w) \<Longrightarrow> preserves R (console_log r)"
  by (cases r) (simp_all add: preserves_def console_log_def pret_def pthrow_def)

lemma preserves_existsSync: "(\<And>w. R w w) \<Longrightarrow> preserves R (existsSync path)"
  by (simp add: preserves_def existsSync_def)

lemma preserves_pbind:
  assumes trans: "\<And>a b c. R a b \<Longrightarrow> R b c \<Longrightarrow> R a c"
    and m: "preserves R m" and f: "\<And>x. preserves R (f x)"
  shows "preserves R (pbind m f)"
proof (rule preservesI)
  fix w
  obtain r w1 where run: "m w = (r, w1)" by (cases "m w")
  from m have "R w (snd (m w))" by (rule preservesD)
  with run have one: "R w w1" by simp
  show "R w (snd (pbind m f w))"
  proof (cases r)
    case (Inl e)
    with run one show ?thesis by (simp add: pbind_def)
  next
    case (Inr x)
    from f [of x] have "R w1 (snd (f x w1))" by (rule preservesD)
    with one have "R w (snd (f x w1))" by (rule trans)
    with run Inr show ?thesis by (simp add: pbind_def)
  qed
qed

lemma preserves_pcatch:
  assumes trans: "\<And>a b c. R a b \<Longrightarrow> R b c \<Longrightarrow> R a c"
    and m: "preserves R m" and h: "\<And>e. preserves R (h e)"
  shows "preserves R (pcatch m h)"
proof (rule preservesI)
  fix w
  obtain r w1 where run: "m w = (r, w1)" by (cases "m w")
  from m have "R w (snd (m w))" by (rule preservesD)
  with run have one: "R w w1" by simp
  show "R w (snd (pcatch m h w))"
  proof (cases r)
    case (Inr x)
    with run one show ?thesis by (simp add: pcatch_def)
  next
    case (Inl e)
    from h [of e] have "R w1 (snd (h e w1))" by (rule preservesD)
    with one have "R w (snd (h e w1))" by (rule trans)
    with run Inl show ?thesis by (simp add: pcatch_def)
  qed
qed

lemma preserves_for_each:
  assumes refl: "\<And>w. R w w" and trans: "\<And>a b c. R a b \<Longrightarrow> R b c \<Longrightarrow> R a c"
    and body: "\<And>x. preserves R (body x)"
  shows "preserves R (for_each xs body)"
proof (induction xs)
  case Nil
  show ?case by (simp add: preserves_pret refl)
next
  case (Cons x xs)
  have "preserves R (pbind (body x) (\<lambda>u. for_each xs body))"
    by (rule preserves_pbind [of R]) (erule (1) trans, rule body, rule Cons.IH)
  then show ?case by simp
qed

lemma preserves_for_each_acc:
  assumes refl: "\<And>w. R w w" and trans: "\<And>a b c. R a b \<Longrightarrow> R b c \<Longrightarrow> R a c"
    and body: "\<And>x acc. preserves R (body x acc)"
  shows "preserves R (for_each_acc xs body acc)"
proof (induction xs arbitrary: acc)
  case Nil
  show ?case by (simp add: preserves_pret refl)
next
  case (Cons x xs)
  have "preserves R (pbind (body x acc) (for_each_acc xs body))"
    by (rule preserves_pbind [of R]) (erule (1) trans, rule body, rule Cons.IH)
  then show ?case by simp
qed

lemma preserves_if:
  "preserves R m \<Longrightarrow> preserves R n \<Longrightarrow> preserves R (if c then m else n)"
  by simp

lemma preserves_case_option:
  "preserves R n \<Longrightarrow> (\<And>x. preserves R (s x)) \<Longrightarrow>
   preserves R (case v of None \<Rightarrow> n | Some x \<Rightarrow> s x)"
  by (cases v) simp_all

lemma extends_trace_refl: "extends_trace P w w"
  by (simp add: extends_trace_def)

lemma extends_trace_trans:
  assumes "extends_trace P a b" "extends_trace P b c"
  shows "extends_trace P a c"
proof -
  from assms obtain n1 n2 where "trace b = trace a @ n1" "list_all P n1"
    "trace c = trace b @ n2" "list_all P n2"
    unfolding extends_trace_def by (elim exE conjE)
  then have "trace c = trace a @ (n1 @ n2) \<and> list_all P (n1 @ n2)" by simp
  then show ?thesis unfolding extends_trace_def by (rule exI [of _ "n1 @ n2"])
qed

lemma extends_trace_event:
  "P e \<Longrightarrow> trace w' = trace w @ [e] \<Longrightarrow> extends_trace P w w'"
  unfolding extends_trace_def by (rule exI [of _ "[e]"]) simp

lemma page_only_refl: "page_only P w w"
  by (simp add: page_only_def extends_trace_refl)

lemma page_only_trans: "page_only P a b \<Longrightarrow> page_only P b c \<Longrightarrow> page_only P a c"
  unfolding page_only_def using extends_trace_trans [of P a b c] by simp

lemma page_only_event:
  "P e \<Longrightarrow> w' = w\<lparr>trace := trace w @ [e]\<rparr> \<Longrightarrow> page_only P w w'"
  by (simp add: page_only_def extends_trace_event)

lemma page_only_extends: "page_only P w w' \<Longrightarrow> extends_trace P w w'"
  by (simp add: page_only_def)

lemma preserves_weaken: "(\<And>w w'. R w w' \<Longrightarrow> S w w') \<Longrightarrow> preserves R m \<Longrightarrow> preserves S m"
  by (simp add: preserves_def)

text \<open>The page calls change nothing but the trace.\<close>

lemma page_emit: "P e \<Longrightarrow> preserves (page_only P) (emit e)"
  by (rule preservesI) (simp add: emit_def page_only_event)

lemma page_perform: "P e \<Longrightarrow> preserves (page_only P) (perform B e)"
  by (rule preservesI) (simp add: perform_def page_only_event)

lemma page_isVisible: "P (IsVisible s t) \<Longrightarrow> preserves (page_only P) (isVisible B s t)"
  by (rule preservesI) (simp add: isVisible_def page_only_event)

lemma page_await_response: "P (AwaitResponse p) \<Longrightarrow> preserves (page_only P) (await_response B p)"
  by (rule preservesI) (simp add: await_response_def page_only_event)

lemma page_all_rows: "P (AllRows sel_row) \<Longrightarrow> preserves (page_only P) (all_rows B)"
  by (rule preservesI) (simp add: all_rows_def page_only_event)

lemma page_innerText: "P (RowInnerText i) \<Longrightarrow> preserves (page_only P) (innerText B i)"
  by (rule preservesI) (simp add: innerText_def page_only_event)

lemmas page_rules =
  preserves_pbind [of "page_only P" for P, OF page_only_trans]
  preserves_pcatch [of "page_only P" for P, OF page_only_trans]
  preserves_for_each [of "page_only P" for P, OF page_only_refl page_only_trans]
  preserves_for_each_acc [of "page_only P" for P, OF page_only_refl page_only_trans]
  preserves_pret [of "page_only P" for P, OF page_only_refl]
  preserves_pthrow [of "page_only P" for P, OF page_only_refl]
  preserves_plift [of "page_only P" for P, OF page_only_refl]
  preserves_console_log [of "page_only P" for P, OF page_only_refl]
  preserves_if preserves_case_option
  page_emit page_perform page_isVisible page_await_response page_all_rows page_innerText

lemma ext_writeJson:
  "P (WriteFileSync path v) \<Longrightarrow> preserves (extends_trace P) (writeJson B path v)"
  by (rule preservesI)
    (auto simp: writeJson_def pthrow_def extends_trace_def split: option.splits)

lemma ext_saveSession:
  "P (StorageState (session_path user)) \<Longrightarrow> preserves (extends_trace P) (saveSession B user)"
  by (rule preservesI)
    (auto simp: saveSession_def Let_def extends_trace_def split: option.splits)

lemma ext_logError:
  "(\<And>entry. P (AppendFile ''error_log.txt'' entry)) \<Longrightarrow>
   preserves (extends_trace P) (logError B msg err)"
  by (rule preservesI)
    (auto simp: logError_def Let_def extends_trace_def split: option.splits)

lemma ext_of_page: "preserves (page_only P) m \<Longrightarrow> preserves (extends_trace P) m"
  by (erule preserves_weaken [rotated]) (rule page_only_extends)

lemmas ext_rules =
  preserves_pbind [of "extends_trace P" for P, OF extends_trace_trans]
  preserves_pcatch [of "extends_trace P" for P, OF extends_trace_trans]
  preserves_for_each [of "extends_trace P" for P, OF extends_trace_refl extends_trace_trans]
  preserves_pret [of "extends_trace P" for P, OF extends_trace_refl]
  preserves_pthrow [of "extends_trace P" for P, OF extends_trace_refl]
  preserves_plift [of "extends_trace P" for P, OF extends_trace_refl]
  preserves_console_log [of "extends_trace P" for P, OF extends_trace_refl]
  preserves_existsSync [of "extends_trace P" for P, OF extends_trace_refl]
  preserves_if preserves_case_option

subsection \<open>Scraping never touches the login page\<close>

lemma scraping_events_not_login:
  "\<not> login_interaction (Goto (templates_url tenant))"
  "\<not> login_interaction (Goto (cases_url B))"
  "\<not> login_interaction (Goto (communications_url B i n))"
  "\<not> login_interaction (Click sel_get_started)"
  "\<not> login_interaction (Click sel_done)"
  "\<not> login_interaction (Click sel_edit)"
  "\<not> login_interaction (Click sel_cancel)"
  "\<not> login_interaction (Click ''#CommunicationLibrary'')"
  by (simp_all add: login_interaction_def login_url_def templates_url_def cases_url_def
      communications_url_def sel_get_started_def sel_done_def sel_edit_def sel_cancel_def
      sel_submit_def startsWith_def)

lemma other_events_not_login:
  "\<not> login_interaction Launch" "\<not> login_interaction (NewContext path)"
  "\<not> login_interaction NewPage" "\<not> login_interaction (IsVisible s t)"
  "\<not> login_interaction (WaitForSelector s t)" "\<not> login_interaction (WaitForURL s t)"
  "\<not> login_interaction (WaitForLoadState s)" "\<not> login_interaction (WaitForTimeout t)"
  "\<not> login_interaction (WaitForResponse p t)" "\<not> login_interaction (AwaitResponse p)"
  "\<not> login_interaction (AllRows s)" "\<not> login_interaction (RowInnerText r)"
  "\<not> login_interaction (RowClick r)" "\<not> login_interaction (StorageState path)"
  "\<not> login_interaction (MkdirSync path)" "\<not> login_interaction (WriteFileSync path v)"
  "\<not> login_interaction (AppendFile path entry)" "\<not> login_interaction CloseContext"
  "\<not> login_interaction CloseBrowser"
  by (simp_all add: login_interaction_def)

lemmas not_login = scraping_events_not_login other_events_not_login

lemma templates_goto_page:
  "preserves (page_only (\<lambda>e. \<not> login_interaction e)) (templates_goto B tenant)"
  unfolding templates_goto_def handlePopup_def
  by (intro page_rules) (simp_all add: not_login)

lemma clickOnCommunicationLibrary_page:
  "preserves (page_only (\<lambda>e. \<not> login_interaction e)) (clickOnCommunicationLibrary B)"
  unfolding clickOnCommunicationLibrary_def
  by (intro page_rules) (simp_all add: not_login)

lemma scrape_row_page:
  "preserves (page_only (\<lambda>e. \<not> login_interaction e)) (scrape_row B i templates)"
  unfolding scrape_row_def
  by (intro page_rules) (simp_all add: not_login)

lemma scrapeTemplates_page:
  "preserves (page_only (\<lambda>e. \<not> login_interaction e)) (scrapeTemplates B)"
  unfolding scrapeTemplates_def
  by (intro page_rules scrape_row_page) (simp_all add: not_login)

lemma scrapeCases_page:
  "preserves (page_only (\<lambda>e. \<not> login_interaction e)) (scrapeCases B)"
  unfolding scrapeCases_def
  by (intro page_rules) (simp_all add: not_login)

lemma communications_goto_page:
  "preserves (page_only (\<lambda>e. \<not> login_interaction e)) (communications_goto B i n)"
  unfolding communications_goto_def
  by (intro page_rules) (simp_all add: not_login)

lemma communications_try_page:
  "preserves (page_only (\<lambda>e. \<not> login_interaction e)) (communications_try B i n)"
  unfolding communications_try_def
  by (intro page_rules communications_goto_page) (simp_all add: not_login)

lemma teardown_page:
  "preserves (page_only (\<lambda>e. \<not> login_interaction e)) (teardown B)"
  unfolding teardown_def
  by (intro page_rules) (simp_all add: not_login)

lemma scrapeCommunications_scraping:
  "preserves scraping_only (scrapeCommunications B i n)"
  unfolding scrapeCommunications_def communications_catch_def
  by (intro ext_rules ext_logError ext_of_page [OF communications_try_page])
    (simp_all add: not_login)

lemma export_case_scraping: "preserves scraping_only (export_case B c)"
  unfolding export_case_def
  by (intro ext_rules ext_writeJson scrapeCommunications_scraping) (simp_all add: not_login)

lemma scraper_templates_scraping: "preserves scraping_only (scraper_templates B)"
  unfolding scraper_templates_def
  by (intro ext_rules ext_writeJson ext_of_page [OF templates_goto_page]
      ext_of_page [OF clickOnCommunicationLibrary_page] ext_of_page [OF scrapeTemplates_page])
    (simp_all add: not_login)

lemma scraper_communications_scraping: "preserves scraping_only (scraper_communications B)"
  unfolding scraper_communications_def
  by (intro ext_rules export_case_scraping ext_of_page [OF scrapeCases_page])

lemma scraper_after_login_scraping:
  "preserves scraping_only
     (pbind (scraper_templates B) (\<lambda>u. pbind (scraper_communications B) (\<lambda>u. teardown B)))"
  by (intro ext_rules scraper_templates_scraping scraper_communications_scraping
      ext_of_page [OF teardown_page])

lemma index_after_login_scraping:
  "preserves scraping_only (pbind (index_templates B) (\<lambda>u. teardown B))"
  unfolding index_templates_def
  by (intro ext_rules ext_of_page [OF templates_goto_page]
      ext_of_page [OF clickOnCommunicationLibrary_page] ext_of_page [OF scrapeTemplates_page]
      ext_of_page [OF teardown_page])

lemma scraper_setup_page:
  "preserves (page_only (\<lambda>e. \<not> login_interaction e)) (scraper_setup B)"
  unfolding scraper_setup_def
  by (intro page_rules) (simp_all add: not_login)

lemma index_setup_page:
  "preserves (page_only (\<lambda>e. \<not> login_interaction e)) (index_setup B)"
  unfolding index_setup_def
  by (intro page_rules) (simp_all add: not_login)

lemma pbind_snd_cases:
  obtains (stopped) "snd (pbind m f w) = snd (m w)"
  | (continued) x where "fst (m w) = Inr x" "snd (pbind m f w) = snd (f x (snd (m w)))"
  by (cases "m w"; cases "fst (m w)") (auto simp: pbind_def)

subsection \<open>A valid session\<close>

lemma pbind_isVisible:
  "pbind (isVisible B s t) f w =
     (case fails B (trace w) (IsVisible s t) of
        Some err \<Rightarrow> (Inl err, w\<lparr>trace := trace w @ [IsVisible s t]\<rparr>)
      | None \<Rightarrow> f (visible B (trace w) (IsVisible s t)) (w\<lparr>trace := trace w @ [IsVisible s t]\<rparr>))"
  by (simp add: pbind_def isVisible_def split: option.splits)

lemma scraper_login_valid:
  assumes "\<forall>h. \<not> visible B h probe"
  shows "scraper_login B w =
     (case fails B (trace w) (Goto login_url) of
        Some err \<Rightarrow> (Inl err, w\<lparr>trace := trace w @ [Goto login_url]\<rparr>)
      | None \<Rightarrow>
          (case fails B (trace w @ [Goto login_url]) probe of
             Some err \<Rightarrow> (Inl err, w\<lparr>trace := trace w @ [Goto login_url, probe]\<rparr>)
           | None \<Rightarrow> (Inr (), w\<lparr>trace := trace w @ [Goto login_url, probe]\<rparr>)))"
  using assms
  by (simp add: scraper_login_def msAuth_goto_def pbind_perform pbind_isVisible pret_def
      probe_def split: option.splits)

lemma scraper_login_valid_trace:
  assumes "\<forall>h. \<not> visible B h probe"
  shows "\<exists>k. trace (snd (scraper_login B w)) = trace w @ take k [Goto login_url, probe]
           \<and> (\<forall>u. fst (scraper_login B w) = Inr u \<longrightarrow> k = 2) \<and> 0 < k"
proof (cases "fails B (trace w) (Goto login_url)")
  case (Some err)
  then have "trace (snd (scraper_login B w)) = trace w @ take 1 [Goto login_url, probe]
      \<and> (\<forall>u. fst (scraper_login B w) = Inr u \<longrightarrow> (1::nat) = 2) \<and> 0 < (1::nat)"
    by (simp add: scraper_login_valid [OF assms])
  then show ?thesis by (rule exI [of _ 1])
next
  case None
  then have "trace (snd (scraper_login B w)) = trace w @ take 2 [Goto login_url, probe]
      \<and> (\<forall>u. fst (scraper_login B w) = Inr u \<longrightarrow> (2::nat) = 2) \<and> 0 < (2::nat)"
    by (simp add: scraper_login_valid [OF assms] split: option.splits)
  then show ?thesis by (rule exI [of _ 2])
qed

lemma index_login_skipped:
  assumes "files w (session_path (env_username B)) \<noteq> None"
  shows "index_login B w = (Inr (), w)"
  using assms by (simp add: index_login_def existsSync_def pbind_def pret_def)

text \<open>
  Claim C3 (holds in an amended form). A session is valid for \<^verbatim>\<open>scraper.ts\<close> when the
  sign-in prompt never shows, and for \<^verbatim>\<open>index.ts\<close> when the session file exists. With a
  valid session neither orchestrator fills a credential field or clicks a submit button.
  \<^verbatim>\<open>index.ts\<close> makes no call on the login page at all. \<^verbatim>\<open>scraper.ts\<close> makes at most one:
  it first opens the login page, to look for the prompt there; every other event of its run,
  before and after, is no login interaction.
\<close>

theorem valid_session_skips_credential_entry:
  "((\<forall>h. \<not> visible B h probe) \<longrightarrow>
      (\<exists>a k c. trace (snd (scraper_main B w)) = trace w @ a @ take k [Goto login_url, probe] @ c
         \<and> list_all (\<lambda>e. \<not> login_interaction e) a
         \<and> list_all (\<lambda>e. \<not> login_interaction e) c))
   \<and> (files w (session_path (env_username B)) \<noteq> None \<longrightarrow>
      (\<exists>new. trace (snd (index_main B w)) = trace w @ new
         \<and> list_all (\<lambda>e. \<not> login_interaction e) new))"
proof (intro conjI impI)
  assume valid: "\<forall>h. \<not> visible B h probe"
  let ?P = "\<lambda>e. \<not> login_interaction e"
  let ?G = "\<lambda>w'. \<exists>a k c. trace w' = trace w @ a @ take k [Goto login_url, probe] @ c
         \<and> list_all ?P a \<and> list_all ?P c"
  let ?w1 = "snd (scraper_setup B w)"
  let ?w2 = "snd (scraper_login B ?w1)"
  let ?tail = "pbind (scraper_templates B) (\<lambda>u. pbind (scraper_communications B) (\<lambda>u. teardown B))"
  from preservesD [OF scraper_setup_page [of B], of w]
  obtain a where a: "trace ?w1 = trace w @ a" "list_all ?P a"
    unfolding page_only_def extends_trace_def by (elim exE conjE)
  from scraper_login_valid_trace [OF valid, of ?w1]
  obtain k where k: "trace ?w2 = trace ?w1 @ take k [Goto login_url, probe]"
    by (elim exE conjE)
  have g1: "?G ?w1"
    using a by (intro exI [of _ a] exI [of _ 0] exI [of _ "[]"]) simp
  have g2: "?G ?w2"
    using a k by (intro exI [of _ a] exI [of _ k] exI [of _ "[]"]) simp
  have g3: "?G (snd (?tail ?w2))"
  proof -
    from preservesD [OF scraper_after_login_scraping [of B], of ?w2]
    obtain c where "trace (snd (?tail ?w2)) = trace ?w2 @ c" "list_all ?P c"
      unfolding extends_trace_def by (elim exE conjE)
    with a k show ?thesis
      by (intro exI [of _ a] exI [of _ k] exI [of _ c]) simp
  qed
  have main: "scraper_main B = pbind (scraper_setup B) (\<lambda>u. pbind (scraper_login B) (\<lambda>u. ?tail))"
    by (simp add: scraper_main_def)
  show "?G (snd (scraper_main B w))"
  proof (cases rule: pbind_snd_cases [of "scraper_setup B" "\<lambda>u. pbind (scraper_login B) (\<lambda>u. ?tail)" w])
    case stopped
    with g1 main show ?thesis by simp
  next
    case (continued x)
    show ?thesis
    proof (cases rule: pbind_snd_cases [of "scraper_login B" "\<lambda>u. ?tail" ?w1])
      case stopped
      with continued g2 main show ?thesis by simp
    next
      case (continued y)
      with \<open>snd (pbind (scraper_setup B) (\<lambda>u. pbind (scraper_login B) (\<lambda>u. ?tail)) w) =
          snd (pbind (scraper_login B) (\<lambda>u. ?tail) ?w1)\<close> g3 main
      show ?thesis by simp
    qed
  qed
next
  assume found: "files w (session_path (env_username B)) \<noteq> None"
  let ?P = "\<lambda>e. \<not> login_interaction e"
  let ?w1 = "snd (index_setup B w)"
  let ?tail = "pbind (index_templates B) (\<lambda>u. teardown B)"
  from preservesD [OF index_setup_page [of B], of w]
  have f1: "files ?w1 = files w" and e1: "extends_trace ?P w ?w1"
    unfolding page_only_def by simp_all
  from f1 found have skip: "index_login B ?w1 = (Inr (), ?w1)"
    by (simp add: index_login_skipped)
  have e2: "extends_trace ?P ?w1 (snd (?tail ?w1))"
    by (rule preservesD [OF index_after_login_scraping])
  have "extends_trace ?P w (snd (index_main B w))"
  proof (cases rule: pbind_snd_cases [of "index_setup B" "\<lambda>u. pbind (index_login B) (\<lambda>u. ?tail)" w])
    case stopped
    with e1 show ?thesis by (simp add: index_main_def)
  next
    case (continued x)
    have "snd (pbind (index_login B) (\<lambda>u. ?tail) ?w1) = snd (?tail ?w1)"
      using skip by (simp add: pbind_def)
    with continued have "snd (index_main B w) = snd (?tail ?w1)"
      by (simp add: index_main_def)
    with extends_trace_trans [OF e1 e2] show ?thesis by simp
  qed
  then show "\<exists>new. trace (snd (index_main B w)) = trace w @ new \<and> list_all ?P new"
    by (simp add: extends_trace_def)
qed

lemma mock_console_shows_no_prompt: "visible mock_console = (\<lambda>h e. False)"
  by (simp add: mock_console_def)

lemma saved_session_found:
  "files saved_session (session_path (env_username mock_console)) = Some SessionState"
  "files saved_session (session_path (MS_USERNAME mock_console)) = Some SessionState"
  by (simp_all add: saved_session_def empty_world_def mock_console_def session_path_def
      env_string_def)

text \<open>The console that works, started on a saved session, is such a run.\<close>

theorem valid_session_skips_credential_entry_witness:
  "visible mock_console = (\<lambda>h e. False)
   \<and> files saved_session (session_path (MS_USERNAME mock_console)) = Some SessionState
   \<and> files saved_session (session_path (env_username mock_console)) = Some SessionState
   \<and> (\<exists>a k c. trace (snd (scraper_main mock_console saved_session)) =
          trace saved_session @ a @ take k [Goto login_url, probe] @ c
        \<and> list_all (\<lambda>e. \<not> login_interaction e) a
        \<and> list_all (\<lambda>e. \<not> login_interaction e) c)
   \<and> (\<exists>new. trace (snd (index_main mock_console saved_session)) = trace saved_session @ new
        \<and> list_all (\<lambda>e. \<not> login_interaction e) new)"
  using valid_session_skips_credential_entry [of mock_console saved_session]
  by (simp add: mock_console_shows_no_prompt saved_session_found)

lemma mock_console_setup:
  "scraper_setup mock_console w =
     (Inr (), w\<lparr>trace := trace w @ [Launch, NewContext (session_path (MS_USERNAME mock_console)),
                                     NewPage, MkdirSync ''exports'']\<rparr>)"
  by (simp add: scraper_setup_def pbind_perform perform_apply mock_console_answers)

lemma mock_console_login:
  "scraper_login mock_console w = (Inr (), w\<lparr>trace := trace w @ [Goto login_url, probe]\<rparr>)"
  by (simp add: scraper_login_valid mock_console_shows_no_prompt mock_console_answers)

text \<open>
  On that run \<^verbatim>\<open>scraper.ts\<close> does open the login page, although the session file is there
  and no prompt shows: the claim as first stated, with no login-page navigation at all, does
  not hold of it.
\<close>

theorem valid_session_still_opens_login_page:
  "visible mock_console = (\<lambda>h e. False)
   \<and> files saved_session (session_path (MS_USERNAME mock_console)) = Some SessionState
   \<and> login_interaction (Goto login_url)
   \<and> Goto login_url \<in> set (trace (snd (scraper_main mock_console saved_session)))"
proof -
  let ?B = mock_console
  let ?tail = "pbind (scraper_templates ?B) (\<lambda>u. pbind (scraper_communications ?B) (\<lambda>u. teardown ?B))"
  let ?w2 = "saved_session\<lparr>trace := (trace saved_session @ [Launch,
      NewContext (session_path (MS_USERNAME ?B)), NewPage, MkdirSync ''exports''])
      @ [Goto login_url, probe]\<rparr>"
  have run: "scraper_main ?B saved_session = ?tail ?w2"
    by (simp add: scraper_main_def pbind_def mock_console_setup mock_console_login)
  from preservesD [OF scraper_after_login_scraping [of ?B], of ?w2]
  obtain c where "trace (snd (?tail ?w2)) = trace ?w2 @ c"
    unfolding extends_trace_def by (elim exE conjE)
  with run have "Goto login_url \<in> set (trace (snd (scraper_main ?B saved_session)))"
    by simp
  then show ?thesis
    by (simp add: mock_console_shows_no_prompt saved_session_found login_interaction_def)
qed

subsection \<open>The export of one case\<close>

lemma export_case_after_scrape:
  assumes "js_to_string c = Inr s" "js_get c ''id'' = Inr cid"
    and "js_get c ''displayName'' = Inr cname"
    and "js_to_string cid = Inr i" "js_to_string cname = Inr n"
    and "scrapeCommunications B cid cname w = (Inr (JArr xs), w1)"
  shows "export_case B c w =
     (if xs = [] then (Inr (), w1)
      else (case fails B (trace w1) (WriteFileSync (export_path i) (JArr xs)) of
              Some err \<Rightarrow>
                (Inl err, w1\<lparr>trace := trace w1 @ [WriteFileSync (export_path i) (JArr xs)]\<rparr>)
            | None \<Rightarrow>
                (Inr (), w1\<lparr>trace := trace w1 @ [WriteFileSync (export_path i) (JArr xs)],
                              files := (files w1)(export_path i \<mapsto> Exported (JArr xs))\<rparr>)))"
proof -
  have scrape: "pbind (scrapeCommunications B cid cname) f w = f (JArr xs) w1" for f
    using assms(6) by (simp add: pbind_def)
  have wr: "pbind (writeJson B p (JArr xs)) f w1 =
      (case fails B (trace w1) (WriteFileSync p (JArr xs)) of
         Some err \<Rightarrow> (Inl err, w1\<lparr>trace := trace w1 @ [WriteFileSync p (JArr xs)]\<rparr>)
       | None \<Rightarrow>
           f () (w1\<lparr>trace := trace w1 @ [WriteFileSync p (JArr xs)],
                     files := (files w1)(p \<mapsto> Exported (JArr xs))\<rparr>))" for f p
    by (simp add: pbind_def writeJson_def split: option.splits)
  show ?thesis
    using assms(1-5)
    by (simp add: export_case_def pbind_console_log pbind_plift scrape field_string_def
        ebind_def export_path_def wr console_log_def plift_def pret_apply
        pbind_Pair_Inr split: option.splits)
qed

lemma logged_frame:
  "files (logged B entry w) = files w
   \<and> (error_log (logged B entry w) = error_log w
      \<or> error_log (logged B entry w) = error_log w @ [entry])"
  by (simp add: logged_def split: option.splits)

lemma scrapeCommunications_frame:
  "files (snd (scrapeCommunications B cid cname w)) = files w
   \<and> (error_log (snd (scrapeCommunications B cid cname w)) = error_log w
      \<or> (\<exists>entry. error_log (snd (scrapeCommunications B cid cname w)) = error_log w @ [entry]))"
proof -
  obtain r w1 where t: "communications_try B cid cname w = (r, w1)"
    by (cases "communications_try B cid cname w")
  from preservesD [OF communications_try_page [of B cid cname], of w] t
  have f: "files w1 = files w" "error_log w1 = error_log w"
    by (simp_all add: page_only_def)
  show ?thesis
  proof (cases r)
    case (Inr v)
    with t f show ?thesis by (simp add: scrapeCommunications_returns)
  next
    case (Inl err)
    show ?thesis
    proof (cases "js_to_string cname")
      case (Inl e)
      with t f \<open>r = Inl err\<close> show ?thesis by (simp add: scrapeCommunications_handler_throws)
    next
      case (Inr n)
      with t \<open>r = Inl err\<close>
      have "scrapeCommunications B cid cname w =
          (Inr (JArr []), logged B (scrape_entry B (trace w1) n err) w1)"
        by (simp add: scrapeCommunications_catches)
      with f logged_frame [of B "scrape_entry B (trace w1) n err" w1] show ?thesis
        by auto
    qed
  qed
qed

text \<open>
  Claim C10 (holds in an amended form). For a case whose scrape returns the list \<open>xs\<close>, leaving
  the world \<open>w1\<close>: the loop body writes \<^verbatim>\<open>exports/communications_{caseId}.json\<close>, holding
  \<open>xs\<close>, exactly when \<open>xs\<close> is not empty, and does nothing more when it is empty. The scrape
  itself changes no file; it leaves the error log as it was, or with one entry more.
\<close>

theorem export_written_iff_communications_nonempty:
  assumes "js_to_string c = Inr s" "js_get c ''id'' = Inr cid"
    and "js_get c ''displayName'' = Inr cname"
    and "js_to_string cid = Inr i" "js_to_string cname = Inr n"
    and "scrapeCommunications B cid cname w = (Inr (JArr xs), w1)"
  shows "export_case B c w =
     (if xs = [] then (Inr (), w1)
      else (case fails B (trace w1) (WriteFileSync (export_path i) (JArr xs)) of
              Some err \<Rightarrow>
                (Inl err, w1\<lparr>trace := trace w1 @ [WriteFileSync (export_path i) (JArr xs)]\<rparr>)
            | None \<Rightarrow>
                (Inr (), w1\<lparr>trace := trace w1 @ [WriteFileSync (export_path i) (JArr xs)],
                              files := (files w1)(export_path i \<mapsto> Exported (JArr xs))\<rparr>)))
   \<and> files w1 = files w
   \<and> (error_log w1 = error_log w \<or> (\<exists>entry. error_log w1 = error_log w @ [entry]))"
  using export_case_after_scrape [OF assms] scrapeCommunications_frame [of B cid cname w] assms(6)
  by simp

lemma case_one_fields:
  "js_to_string case_one = Inr ''[object Object]''"
  "js_get case_one ''id'' = Inr (JStr ''c1'')"
  "js_get case_one ''displayName'' = Inr (JStr ''Case One'')"
  "js_to_string (JStr ''c1'') = Inr ''c1''"
  "js_to_string (JStr ''Case One'') = Inr ''Case One''"
  by (simp_all add: case_one_def)

lemma mock_console_communications:
  "scrapeCommunications mock_console (JStr ''c1'') (JStr ''Case One'') empty_world =
     (Inr (JArr [communication_1]), after_scrape)"
proof -
  have "communications_try mock_console (JStr ''c1'') (JStr ''Case One'') empty_world =
      (collection_of (Some (JObj [(''value'', JArr [communication_1])])), after_scrape)"
    using communications_try_response [of "JStr ''c1''" "''c1''" "JStr ''Case One''" "''Case One''"
        mock_console empty_world "Some (JObj [(''value'', JArr [communication_1])])"]
    by (simp add: mock_console_answers after_scrape_def empty_world_def)
      (simp add: mock_console_def)
  then show ?thesis
    by (simp add: collection_of_array scrapeCommunications_returns)
qed

text \<open>The case of the console that works: one communication, one export file.\<close>

theorem export_written_iff_communications_nonempty_witness:
  "scrapeCommunications mock_console (JStr ''c1'') (JStr ''Case One'') empty_world =
     (Inr (JArr [communication_1]), after_scrape)
   \<and> export_case mock_console case_one empty_world =
     (Inr (), after_scrape\<lparr>trace := trace after_scrape @
                  [WriteFileSync (export_path ''c1'') (JArr [communication_1])],
                files := [export_path ''c1'' \<mapsto> Exported (JArr [communication_1])]\<rparr>)
   \<and> files after_scrape = files empty_world
   \<and> error_log after_scrape = error_log empty_world"
proof -
  have e: "export_case mock_console case_one empty_world =
     (Inr (), after_scrape\<lparr>trace := trace after_scrape @
                  [WriteFileSync (export_path ''c1'') (JArr [communication_1])],
                files := [export_path ''c1'' \<mapsto> Exported (JArr [communication_1])]\<rparr>)"
    using export_written_iff_communications_nonempty
      [OF case_one_fields mock_console_communications]
    by (simp add: mock_console_answers after_scrape_def empty_world_def)
  have f: "files after_scrape = files empty_world"
    "error_log after_scrape = error_log empty_world"
    by (simp_all add: after_scrape_def)
  show ?thesis
    by (intro conjI) (rule mock_console_communications, rule e, rule f(1), rule f(2))
qed

text \<open>
  A case that yields zero communications because its scrape timed out: no export file is
  made, but the filesystem is not left unchanged, since \<^verbatim>\<open>error_log.txt\<close> has gained an
  entry.
\<close>

theorem caught_scrape_error_is_logged_to_file:
  "fst (scrapeCommunications unresponsive (JStr ''c1'') (JStr ''Case One'') empty_world) =
     Inr (JArr [])
   \<and> fst (export_case unresponsive case_one empty_world) = Inr ()
   \<and> files (snd (export_case unresponsive case_one empty_world)) = files empty_world
   \<and> error_log (snd (export_case unresponsive case_one empty_world)) \<noteq> error_log empty_world"
proof -
  have "export_case unresponsive case_one empty_world =
      (Inr (), snd (scrapeCommunications unresponsive (JStr ''c1'') (JStr ''Case One'')
         empty_world))"
    using export_case_after_scrape [OF case_one_fields unresponsive_communications_logged]
    by (simp add: unresponsive_communications_logged)
  then show ?thesis
    by (simp add: unresponsive_communications_logged) (simp add: empty_world_def)
qed

end
